theory Spec2Isabelle
  imports Complex_Main "HOL-Library.AList"
begin

section \<open>Numeric values\<close>

text \<open>
  The estimator stores IEEE doubles (numpy arrays and CasADi \<open>DM\<close> matrices).  They are
  modelled by the extended reals with a not-a-number element: finite values are exact
  reals (rounding, overflow and the sign of zero are not modelled), \<open>np.inf\<close> is
  \<open>PInf\<close>, \<open>-np.inf\<close> is \<open>NInf\<close>.  Comparisons involving \<open>NaN\<close> are false, as in
  IEEE arithmetic.  The properties below concern which value is stored where and which
  comparison decides a check; none depends on a rounding.
\<close>

datatype float = Fin real | PInf | NInf | NaN

fun fgt :: "float \<Rightarrow> float \<Rightarrow> bool" where
  "fgt (Fin a) (Fin b) = (a > b)"
| "fgt PInf (Fin b) = True"
| "fgt PInf NInf = True"
| "fgt (Fin a) NInf = True"
| "fgt _ _ = False"

fun fmul :: "float \<Rightarrow> float \<Rightarrow> float" where
  "fmul (Fin a) (Fin b) = Fin (a * b)"
| "fmul NaN _ = NaN"
| "fmul _ NaN = NaN"
| "fmul PInf (Fin b) = (if b > 0 then PInf else if b < 0 then NInf else NaN)"
| "fmul NInf (Fin b) = (if b > 0 then NInf else if b < 0 then PInf else NaN)"
| "fmul (Fin a) PInf = (if a > 0 then PInf else if a < 0 then NInf else NaN)"
| "fmul (Fin a) NInf = (if a > 0 then NInf else if a < 0 then PInf else NaN)"
| "fmul PInf PInf = PInf"
| "fmul NInf NInf = PInf"
| "fmul PInf NInf = NInf"
| "fmul NInf PInf = NInf"

fun fdiv :: "float \<Rightarrow> float \<Rightarrow> float" where
  "fdiv (Fin a) (Fin b) =
     (if b \<noteq> 0 then Fin (a / b)
      else if a > 0 then PInf else if a < 0 then NInf else NaN)"
| "fdiv NaN _ = NaN"
| "fdiv _ NaN = NaN"
| "fdiv (Fin a) PInf = Fin 0"
| "fdiv (Fin a) NInf = Fin 0"
| "fdiv PInf (Fin b) = (if b \<ge> 0 then PInf else NInf)"
| "fdiv NInf (Fin b) = (if b \<ge> 0 then NInf else PInf)"
| "fdiv _ _ = NaN"

fun fadd :: "float \<Rightarrow> float \<Rightarrow> float" where
  "fadd (Fin a) (Fin b) = Fin (a + b)"
| "fadd NaN _ = NaN"
| "fadd _ NaN = NaN"
| "fadd PInf NInf = NaN"
| "fadd NInf PInf = NaN"
| "fadd PInf _ = PInf"
| "fadd _ PInf = PInf"
| "fadd NInf _ = NInf"
| "fadd _ NInf = NInf"

section \<open>Errors\<close>

text \<open>
  The source raises \<open>AssertionError\<close> (a failed \<open>assert\<close>) and the generic
  \<open>Exception\<close>; reading an attribute that was never assigned raises
  \<open>AttributeError\<close>, an index outside a list \<open>IndexError\<close>, and the symbolic layer
  raises its own runtime error.  Each message of the source is one constructor of
  \<open>msg\<close>.
\<close>

datatype idx = K string | I nat

type_synonym label = "idx list"

datatype msg =
    ModelNotSetup
  | WrongStateSize
  | ResetHistoryNotBool
  | X0WrongType
  | ObjShape
  | ArrivalCostShape
  | SetObjectiveAfterSetup
  | ObjDomain
  | ArrivalCostDomain
  | SetTvpFunAfterSetup
  | TvpFunOutput
  | PFunOutput
  | YFunOutput
  | ObjectiveUndefined
  | TvpFunMissing
  | PFunMissing
  | BoundsInconsistent "label list"
  | MeasFunMissing
  | NotSetupYet

datatype error =
    AssertionError msg
  | Exception msg
  | AttributeError string
  | IndexError
  | CasadiError string

section \<open>Structures of the symbolic layer\<close>

text \<open>
  A CasADi structure is an ordered list of named entries.  Each scalar component of an
  entry has an index tuple; the label of the component is the entry name followed by
  that tuple.  \<open>struct_symSX\<close> attaches one symbol to every component; calling a
  structure with a number gives the numeric structure (\<open>DMStruct\<close>) with the same
  labels and every component set to that number.
\<close>

type_synonym struct = "(string \<times> label list) list"

definition keys :: "struct \<Rightarrow> string list" where
  "keys st = map fst st"

definition entry_labels :: "string \<times> label list \<Rightarrow> label list" where
  "entry_labels e = map ((#) (K (fst e))) (snd e)"

definition labels :: "struct \<Rightarrow> label list" where
  "labels st = concat (map entry_labels st)"

definition size_st :: "struct \<Rightarrow> nat" where
  "size_st st = length (labels st)"

text \<open>\<open>st[k]\<close> for an entry name \<open>k\<close>: the components of that entry.\<close>

definition getitem :: "struct \<Rightarrow> string \<Rightarrow> label list" where
  "getitem st k = (case map_of st k of Some ls \<Rightarrow> ls | None \<Rightarrow> [])"

text \<open>\<open>entry(name, shape=(n,1))\<close>, and \<open>entry(name, repeat=dims, struct=sub)\<close>.\<close>

definition entry_shape :: "string \<Rightarrow> nat \<Rightarrow> string \<times> label list" where
  "entry_shape name n = (name, map (\<lambda>i. [I i]) [0..<n])"

fun repeat_labels :: "nat list \<Rightarrow> label list \<Rightarrow> label list" where
  "repeat_labels [] ls = ls"
| "repeat_labels (d # ds) ls =
     concat (map (\<lambda>i. map ((#) (I i)) (repeat_labels ds ls)) [0..<d])"

definition entry_repeat :: "string \<Rightarrow> nat list \<Rightarrow> struct \<Rightarrow> string \<times> label list" where
  "entry_repeat name dims sub = (name, repeat_labels dims (labels sub))"

text \<open>
  The constructors \<open>struct_symSX\<close> and \<open>struct_SX\<close> raise when two entries have the
  same name.
\<close>

definition struct_symSX :: "struct \<Rightarrow> error + struct" where
  "struct_symSX entries =
     (if distinct (keys entries) then Inr entries else Inl (CasadiError ''duplicate entry''))"

definition struct_SX :: "struct \<Rightarrow> error + struct" where
  "struct_SX entries =
     (if distinct (keys entries) then Inr entries else Inl (CasadiError ''duplicate entry''))"

record dmstruct =
  ds_labels :: "label list"
  cat :: "float list"

definition struct_call :: "struct \<Rightarrow> float \<Rightarrow> dmstruct" where
  "struct_call st v = \<lparr>ds_labels = labels st, cat = replicate (size_st st) v\<rparr>"

text \<open>
  Reading and writing a numeric structure at an index prefix, as in
  \<open>opt_x_num['_x', k, j]\<close>: the components whose label starts with the prefix, in
  order.  An assignment broadcasts the right-hand side over the selected blocks, as
  CasADi does for \<open>opt_x_num['_x'] = v\<close>.
\<close>

definition ds_get :: "dmstruct \<Rightarrow> label \<Rightarrow> float list" where
  "ds_get d p = map snd (filter (\<lambda>(l, v). take (length p) l = p) (zip (ds_labels d) (cat d)))"

fun assign_cyc :: "label \<Rightarrow> float list \<Rightarrow> nat \<Rightarrow> label list \<Rightarrow> float list \<Rightarrow> float list" where
  "assign_cyc p vs n (l # ls) (c # cs) =
     (if take (length p) l = p \<and> vs \<noteq> []
      then vs ! (n mod length vs) # assign_cyc p vs (Suc n) ls cs
      else c # assign_cyc p vs n ls cs)"
| "assign_cyc p vs n _ cs = cs"

definition ds_set :: "dmstruct \<Rightarrow> label \<Rightarrow> float list \<Rightarrow> dmstruct" where
  "ds_set d p vs = d\<lparr>cat := assign_cyc p vs 0 (ds_labels d) (cat d)\<rparr>"

text \<open>Python's index into a sequence of length \<open>n\<close>; negative indices count from the end.\<close>

definition py_index :: "nat \<Rightarrow> int \<Rightarrow> error + nat" where
  "py_index n i =
     (let j = (if i < 0 then int n + i else i)
      in if 0 \<le> j \<and> j < int n then Inr (nat j) else Inl IndexError)"

section \<open>Symbolic functions\<close>

text \<open>
  \<open>Function(name, inputs, [out])\<close> where every input and the output are vectors of
  symbols.  Construction fails when the output mentions a symbol that no input declares.
  A call binds the components of the arguments to the input symbols by position and
  returns the output under that binding; arguments must have the declared sizes.
  Symbols of the parameter structures are identified with the labels of the model's
  parameter structure, because the entries of the two partial structures are created
  with \<open>sym=_p[p_i]\<close>.
\<close>

record sx_function =
  f_name :: string
  f_in :: "label list list"
  f_out :: "label list"

definition Function :: "string \<Rightarrow> label list list \<Rightarrow> label list \<Rightarrow> error + sx_function" where
  "Function name ins out =
     (if set out \<subseteq> set (concat ins)
      then Inr \<lparr>f_name = name, f_in = ins, f_out = out\<rparr>
      else Inl (CasadiError ''free variables''))"

definition call :: "sx_function \<Rightarrow> 'a list list \<Rightarrow> error + 'a list" where
  "call f args =
     (if map length args \<noteq> map length (f_in f) then Inl (CasadiError ''dimension mismatch'')
      else let env = map_of (zip (concat (f_in f)) (concat args))
           in if list_all (\<lambda>s. env s \<noteq> None) (f_out f)
              then Inr (map (\<lambda>s. the (env s)) (f_out f))
              else Inl (CasadiError ''free variables''))"

section \<open>The model, the history sink and the estimator object\<close>

text \<open>
  The process model is an external collaborator: its structures for states, inputs,
  algebraic variables, time-varying parameters, parameters, measurements and auxiliary
  expressions, and its setup flag.
\<close>

record model =
  m_setup :: bool
  m_x :: struct
  m_u :: struct
  m_z :: struct
  m_tvp :: struct
  m_p :: struct
  m_y :: struct
  m_aux_expression :: struct

datatype optval = OBool bool | OStr string | OInt int

type_synonym dict = "(string \<times> optval) list"

text \<open>
  Modelled from the spec: the history sink \<open>do_mpc.data.Data\<close> is not part of the
  source file.  \<open>init_storage()\<close> empties every trajectory, \<open>set_meta(**fields)\<close>
  stores the given fields, \<open>update(**named_values)\<close> appends one row to the trajectory
  of each named quantity.
\<close>

record meta =
  meta_n_horizon :: nat
  meta_t_step :: float
  meta_meas_from_data :: bool
  meta_state_discretization :: string
  meta_collocation_type :: string
  meta_collocation_deg :: nat
  meta_collocation_ni :: nat
  meta_store_full_solution :: bool
  meta_store_lagr_multiplier :: bool
  meta_store_solver_stats :: "string list"
  meta_nlpsol_opts :: dict

record data =
  d_x :: "float list list"
  d_u :: "float list list"
  d_z :: "float list list"
  d_p :: "float list list"
  d_y :: "float list list"
  d_time :: "float list"
  d_aux_expression :: "float list list"
  d_meta :: "meta option"
  d_dtype :: string

definition init_storage :: "data \<Rightarrow> data" where
  "init_storage d = d\<lparr>d_x := [], d_u := [], d_z := [], d_p := [], d_y := [],
     d_time := [], d_aux_expression := []\<rparr>"

definition Data :: "model \<Rightarrow> data" where
  "Data m = \<lparr>d_x = [], d_u = [], d_z = [], d_p = [], d_y = [], d_time = [],
     d_aux_expression = [], d_meta = None, d_dtype = []\<rparr>"

definition set_meta :: "data \<Rightarrow> meta \<Rightarrow> data" where
  "set_meta d mt = d\<lparr>d_meta := Some mt\<rparr>"

text \<open>
  Symbolic expressions of the assembled problem.  The discretization scheme, the
  objective functions and the model's expression evaluators are opaque; an expression
  records which function is applied to which part of the decision-variable structure
  \<open>opt_x\<close> (scaled or unscaled) and of the parameter structure \<open>opt_p\<close>.
\<close>

datatype sx =
    OptX label
  | OptXUnscaled label
  | OptP label
  | Vertcat "sx list"
  | DivScaling sx "float list"
  | PCat sx sx
  | Apply string "sx list" nat
  | Minus sx sx

text \<open>
  A user expression handed to \<open>set_objective\<close>: its shape and the symbols it depends on
  (\<open>symvar\<close>).  A symbol is the name of the structure that owns it and the label of the
  component.
\<close>

type_synonym sym = "string \<times> label"

record expr =
  shape :: "nat \<times> nat"
  symvar :: "sym list"

definition syms :: "string \<Rightarrow> struct \<Rightarrow> sym list" where
  "syms tag st = map (Pair tag) (labels st)"

record nl_con =
  expr_name :: string
  expr_size :: nat
  nl_lb :: "float list"

text \<open>
  The measurement callback is either the user's, or the default one that
  \<open>check_validity\<close> installs; the default one owns a template that it overwrites at
  each call.
\<close>

datatype y_callback = UserY "float \<Rightarrow> dmstruct" | DefaultY dmstruct

record solver =
  nlp_x :: "label list"
  nlp_f :: "sx list"
  nlp_g :: "sx list"
  nlp_p :: "label list"
  plugin :: string
  opts :: dict

record problem =
  n_coll :: nat
  opt_x :: struct
  opt_x_scaling :: dmstruct
  opt_p :: struct
  aux_struct :: struct
  opt_aux :: "sx list"
  lb_opt_x :: dmstruct
  ub_opt_x :: dmstruct
  obj :: "sx list"
  cons :: "sx list"
  cons_lb :: "float list"
  cons_ub :: "float list"
  n_opt_x :: nat
  n_opt_aux :: nat
  n_opt_lagr :: nat
  S :: solver

record mhe =
  model :: model
  x0 :: dmstruct
  u0 :: dmstruct
  z0 :: dmstruct
  t0 :: float
  data :: data
  x_lb :: dmstruct
  x_ub :: dmstruct
  u_lb :: dmstruct
  u_ub :: dmstruct
  z_lb :: dmstruct
  z_ub :: dmstruct
  x_scaling :: dmstruct
  u_scaling :: dmstruct
  z_scaling :: dmstruct
  nl_cons_list :: "nl_con list"
  n_horizon :: "nat option"
  t_step :: "float option"
  meas_from_data :: bool
  state_discretization :: string
  collocation_type :: string
  collocation_deg :: nat
  collocation_ni :: nat
  store_full_solution :: bool
  store_lagr_multiplier :: bool
  store_solver_stats :: "string list"
  nlpsol_opts :: dict
  p_est :: struct
  p_set :: struct
  p_cat_fun :: sx_function
  p_est_scaling :: dmstruct
  p_est_lb :: dmstruct
  p_est_ub :: dmstruct
  p_est0 :: dmstruct
  x_prev :: struct
  p_prev :: struct
  flag_setup :: bool
  flag_set_tvp_fun :: bool
  flag_set_p_fun :: bool
  flag_set_y_fun :: bool
  flag_set_objective :: bool
  tvp_fun :: "(float \<Rightarrow> dmstruct) option"
  p_fun :: "(float \<Rightarrow> dmstruct) option"
  y_fun :: "y_callback option"
  obj_fun :: "expr option"
  arrival_cost_fun :: "expr option"
  nl_cons :: "struct option"
  nl_cons_lb :: "dmstruct option"
  nl_cons_ub :: "dmstruct option"
  problem :: "problem option"
  opt_x_num :: "dmstruct option"
  opt_x_num_unscaled :: "dmstruct option"
  opt_p_num :: "dmstruct option"
  opt_aux_num :: "dmstruct option"

section \<open>Construction\<close>

text \<open>
  \<open>MHE.__init__\<close>.  \<open>Estimator.__init__\<close> asserts that the model was set up and creates
  the initial values, the clock and the history.

  Modelled from the spec: \<open>Optimizer.__init__\<close> is not part of the source file; per
  category (state, input, algebraic) it declares a lower bound, an upper bound and a
  scaling factor, here with the defaults that the source gives the estimated
  parameters (\<open>-inf\<close>, \<open>inf\<close>, \<open>1.0\<close>), and an empty list of nonlinear constraints.

  The two partial parameter structures take, in the order of the model's keys, the
  entries whose name is, respectively is not, in \<open>p_est_list\<close>; the estimated one
  starts with an empty entry \<open>default\<close>.  When the list names an entry \<open>default\<close> of
  the model itself, the estimated structure has two entries of that name and its
  constructor raises.
\<close>

definition MHE :: "model \<Rightarrow> string list \<Rightarrow> error + mhe" where
  "MHE m p_est_list =
    (if \<not> m_setup m then Inl (AssertionError ModelNotSetup)
     else
       let p = m_p m
       in case struct_symSX ((''default'', []) # map (\<lambda>p_i. (p_i, getitem p p_i))
                  (filter (\<lambda>p_i. p_i \<in> set p_est_list) (keys p))) of
            Inl e \<Rightarrow> Inl e
          | Inr pe \<Rightarrow>
       case struct_symSX (map (\<lambda>p_i. (p_i, getitem p p_i))
                  (filter (\<lambda>p_i. p_i \<notin> set p_est_list) (keys p))) of
            Inl e \<Rightarrow> Inl e
          | Inr ps \<Rightarrow>
       case Function ''p_cat_fun'' [labels pe, labels ps] (labels p) of
            Inl e \<Rightarrow> Inl e
          | Inr f \<Rightarrow> Inr
             \<lparr>model = m,
              x0 = struct_call (m_x m) (Fin 0),
              u0 = struct_call (m_u m) (Fin 0),
              z0 = struct_call (m_z m) (Fin 0),
              t0 = Fin 0,
              data = (Data m)\<lparr>d_dtype := ''Estimator''\<rparr>,
              x_lb = struct_call (m_x m) NInf,
              x_ub = struct_call (m_x m) PInf,
              u_lb = struct_call (m_u m) NInf,
              u_ub = struct_call (m_u m) PInf,
              z_lb = struct_call (m_z m) NInf,
              z_ub = struct_call (m_z m) PInf,
              x_scaling = struct_call (m_x m) (Fin 1),
              u_scaling = struct_call (m_u m) (Fin 1),
              z_scaling = struct_call (m_z m) (Fin 1),
              nl_cons_list = [],
              n_horizon = None,
              t_step = None,
              meas_from_data = False,
              state_discretization = ''collocation'',
              collocation_type = ''radau'',
              collocation_deg = 2,
              collocation_ni = 1,
              store_full_solution = False,
              store_lagr_multiplier = True,
              store_solver_stats = [''success'', ''t_wall_S'', ''t_wall_S''],
              nlpsol_opts = [],
              p_est = pe,
              p_set = ps,
              p_cat_fun = f,
              p_est_scaling = struct_call pe (Fin 1),
              p_est_lb = struct_call pe NInf,
              p_est_ub = struct_call pe PInf,
              p_est0 = struct_call pe (Fin 0),
              x_prev = m_x m,
              p_prev = pe,
              flag_setup = False,
              flag_set_tvp_fun = False,
              flag_set_p_fun = False,
              flag_set_y_fun = False,
              flag_set_objective = False,
              tvp_fun = None,
              p_fun = None,
              y_fun = None,
              obj_fun = None,
              arrival_cost_fun = None,
              nl_cons = None,
              nl_cons_lb = None,
              nl_cons_ub = None,
              problem = None,
              opt_x_num = None,
              opt_x_num_unscaled = None,
              opt_p_num = None,
              opt_aux_num = None\<rparr>)"

text \<open>The recombination function: \<open>self._p_cat_fun(p_est, p_set)\<close>.\<close>

definition recombine :: "mhe \<Rightarrow> 'a list \<Rightarrow> 'a list \<Rightarrow> error + 'a list" where
  "recombine s pe_num ps_num = call (p_cat_fun s) [pe_num, ps_num]"

section \<open>Initial state and history\<close>

text \<open>
  The argument of \<open>set_initial_state\<close> is any Python object.  \<open>x0.size\<close> is the number
  of elements for a numpy array and a \<open>DMStruct\<close>; for a CasADi \<open>DM\<close> it is a bound
  method, which is never equal to a number; another object has the attribute or not.
\<close>

datatype x0_arg = NdArray "float list" | DM "float list" | DMStruct dmstruct | Other "nat option"

datatype py_bool_arg = PyBool bool | PyNotBool

fun size_attr :: "x0_arg \<Rightarrow> error + nat option" where
  "size_attr (NdArray vs) = Inr (Some (length vs))"
| "size_attr (DM vs) = Inr None"
| "size_attr (DMStruct d) = Inr (Some (length (cat d)))"
| "size_attr (Other None) = Inl (AttributeError ''size'')"
| "size_attr (Other (Some n)) = Inr (Some n)"

definition reset_history :: "mhe \<Rightarrow> mhe" where
  "reset_history s = s\<lparr>data := init_storage (data s)\<rparr>"

definition set_initial_state :: "mhe \<Rightarrow> x0_arg \<Rightarrow> py_bool_arg \<Rightarrow> (error + unit) \<times> mhe" where
  "set_initial_state s x rh =
    (case size_attr x of
       Inl e \<Rightarrow> (Inl e, s)
     | Inr sz \<Rightarrow>
        if sz \<noteq> Some (size_st (m_x (model s))) then (Inl (AssertionError WrongStateSize), s)
        else case rh of
          PyNotBool \<Rightarrow> (Inl (AssertionError ResetHistoryNotBool), s)
        | PyBool b \<Rightarrow>
           (case x of
              NdArray vs \<Rightarrow>
                (Inr (), (if b then reset_history else id)
                   (s\<lparr>x0 := \<lparr>ds_labels = labels (m_x (model s)), cat = vs\<rparr>\<rparr>))
            | DM vs \<Rightarrow>
                (Inr (), (if b then reset_history else id)
                   (s\<lparr>x0 := \<lparr>ds_labels = labels (m_x (model s)), cat = vs\<rparr>\<rparr>))
            | DMStruct d \<Rightarrow> (Inr (), (if b then reset_history else id) (s\<lparr>x0 := d\<rparr>))
            | Other n \<Rightarrow> (Inl (Exception X0WrongType), s)))"

section \<open>Callback registry\<close>

definition get_p_template :: "mhe \<Rightarrow> dmstruct" where
  "get_p_template s = struct_call (p_set s) (Fin 0)"

definition set_p_fun :: "mhe \<Rightarrow> (float \<Rightarrow> dmstruct) \<Rightarrow> (error + unit) \<times> mhe" where
  "set_p_fun s f =
    (if ds_labels (get_p_template s) = ds_labels (f (Fin 0))
     then (Inr (), s\<lparr>p_fun := Some f, flag_set_p_fun := True\<rparr>)
     else (Inl (AssertionError PFunOutput), s))"

definition get_y_template :: "mhe \<Rightarrow> error + dmstruct" where
  "get_y_template s =
    (case n_horizon s of
       None \<Rightarrow> Inl (AttributeError ''n_horizon'')
     | Some N \<Rightarrow> Inr (struct_call [entry_repeat ''y_meas'' [N] (m_y (model s))] (Fin 0)))"

text \<open>
  The default measurement callback of \<open>check_validity\<close>: it writes the last
  \<open>n_steps = min(len(data._y), n_horizon)\<close> measurements of the history to the last
  \<open>n_steps\<close> rows of its template and pads the rows before them with the oldest of
  these measurements.  When the history is empty the padding loop raises at its first
  index and the \<open>except\<close> clause swallows the error, so the template is returned as it
  is.  The rows of the history are taken to have the width of the measurement structure.
\<close>

definition default_y_fun :: "dmstruct \<Rightarrow> float list list \<Rightarrow> nat \<Rightarrow> dmstruct" where
  "default_y_fun y_template ys N =
    (let n_steps = min (length ys) N;
         t1 = fold (\<lambda>i t. ds_set t [K ''y_meas'', I (N - n_steps + i)]
                              (ys ! (length ys - n_steps + i)))
                [0..<n_steps] y_template
     in if n_steps = 0 then t1
        else fold (\<lambda>k t. ds_set t [K ''y_meas'', I k] (ys ! (length ys - n_steps)))
               [0..<N - n_steps] t1)"

fun call_y_fun :: "mhe \<Rightarrow> y_callback \<Rightarrow> float \<Rightarrow> error + dmstruct \<times> y_callback" where
  "call_y_fun s (UserY f) t = Inr (f t, UserY f)"
| "call_y_fun s (DefaultY y_template) t =
    (case n_horizon s of
       None \<Rightarrow> Inl (AttributeError ''n_horizon'')
     | Some N \<Rightarrow>
        let r = default_y_fun y_template (d_y (data s)) N in Inr (r, DefaultY r))"

definition set_y_fun :: "mhe \<Rightarrow> y_callback \<Rightarrow> (error + unit) \<times> mhe" where
  "set_y_fun s yf =
    (case get_y_template s of
       Inl e \<Rightarrow> (Inl e, s)
     | Inr tmpl \<Rightarrow>
        (case call_y_fun s yf (Fin 0) of
           Inl e \<Rightarrow> (Inl e, s)
         | Inr (r, yf') \<Rightarrow>
            if ds_labels tmpl = ds_labels r
            then (Inr (), s\<lparr>y_fun := Some yf', flag_set_y_fun := True\<rparr>)
            else (Inl (AssertionError YFunOutput), s)))"

text \<open>
  Modelled from the spec: \<open>get_tvp_template\<close> and \<open>set_tvp_fun\<close> belong to the missing
  \<open>Optimizer\<close> class.  The template is the zero-valued instance of the structure of
  time-varying parameters over the horizon; \<open>set_tvp_fun\<close> fails after \<open>setup\<close>, as the
  spec states for every registration, and otherwise stores the callback when its
  output, evaluated once, has the labels of the template.
\<close>

definition get_tvp_template :: "mhe \<Rightarrow> error + dmstruct" where
  "get_tvp_template s =
    (case n_horizon s of
       None \<Rightarrow> Inl (AttributeError ''n_horizon'')
     | Some N \<Rightarrow> Inr (struct_call [entry_repeat ''_tvp'' [N] (m_tvp (model s))] (Fin 0)))"

definition set_tvp_fun :: "mhe \<Rightarrow> (float \<Rightarrow> dmstruct) \<Rightarrow> (error + unit) \<times> mhe" where
  "set_tvp_fun s f =
    (if flag_setup s then (Inl (AssertionError SetTvpFunAfterSetup), s)
     else case get_tvp_template s of
       Inl e \<Rightarrow> (Inl e, s)
     | Inr tmpl \<Rightarrow>
        if ds_labels tmpl = ds_labels (f (Fin 0))
        then (Inr (), s\<lparr>tvp_fun := Some f, flag_set_tvp_fun := True\<rparr>)
        else (Inl (AssertionError TvpFunOutput), s))"

section \<open>Objective registry\<close>

text \<open>
  \<open>_x_prev\<close> and \<open>_p_prev\<close> are shallow copies (\<open>copy.copy\<close>) of the state structure
  and of the estimated-parameter structure, so they carry the symbols of the original.
  The first domain check is followed by the assignment of \<open>obj_fun\<close>, which therefore
  survives a failure of the second check.
\<close>

definition set_objective :: "mhe \<Rightarrow> expr \<Rightarrow> expr \<Rightarrow> (error + unit) \<times> mhe" where
  "set_objective s ob arrival_cost =
    (if shape ob \<noteq> (1, 1) then (Inl (AssertionError ObjShape), s)
     else if shape arrival_cost \<noteq> (1, 1) then (Inl (AssertionError ArrivalCostShape), s)
     else if flag_setup s then (Inl (AssertionError SetObjectiveAfterSetup), s)
     else
       let m = model s;
           obj_input = syms ''_x'' (m_x m) @ syms ''_u'' (m_u m) @ syms ''_z'' (m_z m) @
                       syms ''_tvp'' (m_tvp m) @ syms ''_p'' (m_p m) @ syms ''_y'' (m_y m)
       in if \<not> set (symvar ob) \<subseteq> set obj_input then (Inl (AssertionError ObjDomain), s)
          else
            let s1 = s\<lparr>obj_fun := Some ob\<rparr>;
                arrival_cost_input = syms ''_x'' (m_x m) @ syms ''_x'' (x_prev s) @
                       syms ''_p'' (p_est s) @ syms ''_p'' (p_prev s)
            in if \<not> set (symvar arrival_cost) \<subseteq> set arrival_cost_input
               then (Inl (AssertionError ArrivalCostDomain), s1)
               else (Inr (), s1\<lparr>arrival_cost_fun := Some arrival_cost,
                                 flag_set_objective := True\<rparr>))"

section \<open>Validity check\<close>

text \<open>
  The bound check of one category: \<open>bound_check = lb.cat > ub.cat\<close>,
  \<open>bound_fail\<close> the labels of the components where it holds, \<open>np.any(bound_check)\<close>.
  The loop over the three categories raises at the first category with a violation.
\<close>

definition bound_check :: "dmstruct \<Rightarrow> dmstruct \<Rightarrow> bool list" where
  "bound_check lb ub = map2 fgt (cat lb) (cat ub)"

definition bound_fail :: "dmstruct \<Rightarrow> dmstruct \<Rightarrow> label list" where
  "bound_fail lb ub = map fst (filter snd (zip (ds_labels lb) (bound_check lb ub)))"

definition np_any :: "bool list \<Rightarrow> bool" where
  "np_any bs = list_ex (\<lambda>b. b) bs"

fun check_bounds :: "(dmstruct \<times> dmstruct) list \<Rightarrow> error option" where
  "check_bounds [] = None"
| "check_bounds ((lb, ub) # rest) =
     (if np_any (bound_check lb ub)
      then Some (Exception (BoundsInconsistent (bound_fail lb ub)))
      else check_bounds rest)"

definition inject_tvp_fun :: "mhe \<Rightarrow> (error + unit) \<times> mhe" where
  "inject_tvp_fun s =
    (if tvp_fun s = None
     then (case get_tvp_template s of
             Inl e \<Rightarrow> (Inl e, s)
           | Inr tvp \<Rightarrow> set_tvp_fun s (\<lambda>t. tvp))
     else (Inr (), s))"

definition inject_p_fun :: "mhe \<Rightarrow> (error + unit) \<times> mhe" where
  "inject_p_fun s =
    (if p_fun s = None then set_p_fun s (\<lambda>t. get_p_template s) else (Inr (), s))"

definition check_y_fun :: "mhe \<Rightarrow> (error + unit) \<times> mhe" where
  "check_y_fun s =
    (if \<not> flag_set_y_fun s \<and> meas_from_data s
     then (case get_y_template s of
             Inl e \<Rightarrow> (Inl e, s)
           | Inr y_template \<Rightarrow> set_y_fun s (DefaultY y_template))
     else (Inl (Exception MeasFunMissing), s))"

definition check_validity :: "mhe \<Rightarrow> (error + unit) \<times> mhe" where
  "check_validity s =
    (if \<not> flag_set_objective s then (Inl (Exception ObjectiveUndefined), s)
     else if \<not> flag_set_tvp_fun s \<and> size_st (m_tvp (model s)) > 0
       then (Inl (Exception TvpFunMissing), s)
     else if \<not> flag_set_p_fun s \<and> size_st (p_set s) > 0
       then (Inl (Exception PFunMissing), s)
     else case check_bounds [(x_lb s, x_ub s), (u_lb s, u_ub s), (z_lb s, z_ub s)] of
       Some e \<Rightarrow> (Inl e, s)
     | None \<Rightarrow>
        (case inject_tvp_fun s of
           (Inl e, s1) \<Rightarrow> (Inl e, s1)
         | (Inr u, s1) \<Rightarrow>
            (case inject_p_fun s1 of
               (Inl e, s2) \<Rightarrow> (Inl e, s2)
             | (Inr u, s2) \<Rightarrow> check_y_fun s2)))"

section \<open>Problem assembly\<close>

text \<open>
  \<open>Optimizer._setup_discretization\<close> is not part of the source file.  It is a
  parameter of the assembly: it fails, or it returns the transition function \<open>ifcn\<close>,
  of which only the length \<open>n_g\<close> of the defect vector matters here, and the number of
  intermediate collocation points.
\<close>

record discretization =
  n_g :: nat
  n_total_coll_points :: nat

text \<open>
  Python's \<open>d.update(other)\<close> changes the receiver in place and returns \<open>None\<close>.
\<close>

definition dict_update :: "dict \<Rightarrow> dict \<Rightarrow> dict" where
  "dict_update d other = fold (\<lambda>(k, v). AList.update k v) other d"

definition py_dict_update :: "dict \<Rightarrow> dict \<Rightarrow> dict \<times> dict option" where
  "py_dict_update d other = (dict_update d other, None)"

definition nlpsol :: "string \<Rightarrow> label list \<Rightarrow> sx list \<Rightarrow> sx list \<Rightarrow> label list \<Rightarrow> dict \<Rightarrow> solver" where
  "nlpsol plug x f g p options =
     \<lparr>nlp_x = x, nlp_f = f, nlp_g = g, nlp_p = p, plugin = plug, opts = options\<rparr>"

text \<open>
  The state of the loop over the horizon: the terms summed into the objective, the
  constraint blocks with their bounds, the auxiliary expressions (entry \<open>k\<close> is assigned
  in iteration \<open>k\<close>, modelled by appending) and the bounds of the decision variables.
\<close>

record asm =
  a_obj :: "sx list"
  a_cons :: "sx list"
  a_cons_lb :: "float list list"
  a_cons_ub :: "float list list"
  a_opt_aux :: "sx list"
  a_lb_opt_x :: dmstruct
  a_ub_opt_x :: dmstruct

definition horizon_step ::
  "mhe \<Rightarrow> discretization \<Rightarrow> dmstruct \<Rightarrow> dmstruct \<Rightarrow> sx \<Rightarrow> nat \<Rightarrow> asm \<Rightarrow> asm" where
  "horizon_step s d nlc_lb nlc_ub p k a =
    (let c = n_total_coll_points d;
         ifcn_args = [OptX [K ''_x'', I k, I c],
                      Vertcat (map (\<lambda>j. OptX [K ''_x'', I (k + 1), I j]) [0..<c]),
                      OptX [K ''_u'', I k],
                      Vertcat (map (\<lambda>j. OptX [K ''_z'', I k, I j]) [0..<1 + c]),
                      OptP [K ''_tvp'', I k], p];
         g_ksb = Apply ''ifcn'' ifcn_args 0;
         xf_ksb = Apply ''ifcn'' ifcn_args 1;
         nl_cons_k = Apply ''nl_cons_fun''
                      [OptXUnscaled [K ''_x'', I k, I c], OptXUnscaled [K ''_u'', I k],
                       OptXUnscaled [K ''_z'', I k, I c], OptP [K ''_tvp'', I k], p] 0;
         stage = Apply ''obj_fun''
                      [OptXUnscaled [K ''_x'', I (k + 1), I c], OptXUnscaled [K ''_u'', I k],
                       OptXUnscaled [K ''_z'', I k, I c], OptP [K ''_tvp'', I k], p,
                       OptP [K ''_y_meas'', I k]] 0;
         aux_k = Apply ''aux_expression_fun''
                      [OptXUnscaled [K ''_x'', I k, I c], OptXUnscaled [K ''_u'', I k],
                       OptXUnscaled [K ''_z'', I k, I c], OptP [K ''_tvp'', I k], p] 0
     in a\<lparr>a_cons := a_cons a @ [g_ksb, Minus xf_ksb (OptX [K ''_x'', I (k + 1), I c]), nl_cons_k],
          a_cons_lb := a_cons_lb a @ [replicate (n_g d) (Fin 0),
                         replicate (size_st (m_x (model s))) (Fin 0), cat nlc_lb],
          a_cons_ub := a_cons_ub a @ [replicate (n_g d) (Fin 0),
                         replicate (size_st (m_x (model s))) (Fin 0), cat nlc_ub],
          a_obj := a_obj a @ [stage],
          a_opt_aux := a_opt_aux a @ [aux_k],
          a_lb_opt_x := ds_set (ds_set (a_lb_opt_x a) [K ''_x'', I k]
                            (map2 fdiv (cat (x_lb s)) (cat (x_scaling s))))
                          [K ''_u'', I k] (map2 fdiv (cat (u_lb s)) (cat (u_scaling s))),
          a_ub_opt_x := ds_set (ds_set (a_ub_opt_x a) [K ''_x'', I k]
                            (map2 fdiv (cat (x_ub s)) (cat (x_scaling s))))
                          [K ''_u'', I k] (map2 fdiv (cat (u_ub s)) (cat (u_scaling s)))\<rparr>)"

definition opt_x_struct :: "mhe \<Rightarrow> nat \<Rightarrow> nat \<Rightarrow> struct" where
  "opt_x_struct s N c =
     [entry_repeat ''_x'' [N + 1, 1 + c] (m_x (model s)),
      entry_repeat ''_z'' [N, 1 + c] (m_z (model s)),
      entry_repeat ''_u'' [N] (m_u (model s)),
      entry_repeat ''_p_est'' [] (p_est s)]"

definition opt_p_struct :: "mhe \<Rightarrow> nat \<Rightarrow> struct" where
  "opt_p_struct s N =
     [entry_repeat ''_x_prev'' [] (m_x (model s)),
      entry_repeat ''_p_prev'' [] (p_prev s),
      entry_repeat ''_p_set'' [] (p_set s),
      entry_repeat ''_tvp'' [N] (m_tvp (model s)),
      entry_repeat ''_y_meas'' [N] (m_y (model s))]"

text \<open>
  \<open>_setup_mhe_optim_problem\<close>.  On the path from \<open>setup\<close> the only failure is that of
  the discretization, which comes first; when the assembly is entered without the
  attributes that \<open>setup\<close> prepares, the model reports the missing attribute and keeps
  the state.
\<close>

definition setup_mhe_optim_problem ::
  "(mhe \<Rightarrow> error + discretization) \<Rightarrow> mhe \<Rightarrow> (error + unit) \<times> mhe" where
  "setup_mhe_optim_problem setup_discretization s =
    (case setup_discretization s of
       Inl e \<Rightarrow> (Inl e, s)
     | Inr d \<Rightarrow>
    (case n_horizon s of
       None \<Rightarrow> (Inl (AttributeError ''n_horizon''), s)
     | Some N \<Rightarrow>
    (case arrival_cost_fun s of
       None \<Rightarrow> (Inl (AttributeError ''arrival_cost_fun''), s)
     | Some ac \<Rightarrow>
    (case (nl_cons_lb s, nl_cons_ub s) of
       (Some nlc_lb, Some nlc_ub) \<Rightarrow>
        if 0 < N \<and> obj_fun s = None then (Inl (AttributeError ''obj_fun''), s)
        else
        let c = n_total_coll_points d;
            ox = opt_x_struct s N c;
            scaling = ds_set (ds_set (ds_set (ds_set (struct_call ox (Fin 1))
                        [K ''_x''] (cat (x_scaling s)))
                        [K ''_z''] (cat (z_scaling s)))
                        [K ''_u''] (cat (u_scaling s)))
                        [K ''_p_est''] (cat (p_est_scaling s));
            op = opt_p_struct s N;
            aux = [entry_repeat ''_aux'' [N] (m_aux_expression (model s))];
            arrival_cost = Apply ''arrival_cost_fun''
                  [OptX [K ''_x'', I 0, I c],
                   DivScaling (OptP [K ''_x_prev'']) (cat (x_scaling s)),
                   OptX [K ''_p_est''],
                   DivScaling (OptP [K ''_p_prev'']) (cat (p_est_scaling s))] 0;
            p = PCat (OptX [K ''_p_est'']) (OptP [K ''_p_set'']);
            a0 = \<lparr>a_obj = [arrival_cost], a_cons = [], a_cons_lb = [], a_cons_ub = [],
                    a_opt_aux = [], a_lb_opt_x = struct_call ox NInf,
                    a_ub_opt_x = struct_call ox PInf\<rparr>;
            a = fold (horizon_step s d nlc_lb nlc_ub p) [0..<N] a0;
            lb = ds_set (a_lb_opt_x a) [K ''_p_est'']
                   (map2 fdiv (cat (p_est_lb s)) (cat (p_est_scaling s)));
            ub = ds_set (a_ub_opt_x a) [K ''_p_est'']
                   (map2 fdiv (cat (p_est_ub s)) (cat (p_est_scaling s)));
            (tmp, nlpsol_opts_local) =
               py_dict_update [(''expand'', OBool False), (''ipopt.linear_solver'', OStr ''mumps'')]
                 (nlpsol_opts s);
            pr = \<lparr>n_coll = c, opt_x = ox, opt_x_scaling = scaling, opt_p = op,
                   aux_struct = aux, opt_aux = a_opt_aux a, lb_opt_x = lb, ub_opt_x = ub,
                   obj = a_obj a, cons = a_cons a, cons_lb = concat (a_cons_lb a),
                   cons_ub = concat (a_cons_ub a), n_opt_x = size_st ox,
                   n_opt_aux = size_st aux, n_opt_lagr = length (concat (a_cons_lb a)),
                   S = nlpsol ''ipopt'' (labels ox) (a_obj a) (a_cons a) (labels op)
                         (nlpsol_opts s)\<rparr>
        in (Inr (), s\<lparr>problem := Some pr,
                       opt_x_num := Some (struct_call ox (Fin 0)),
                       opt_x_num_unscaled := Some (struct_call ox (Fin 0)),
                       opt_p_num := Some (struct_call op (Fin 0)),
                       opt_aux_num := Some (struct_call aux (Fin 0))\<rparr>)
     | _ \<Rightarrow> (Inl (AttributeError ''_nl_cons_lb''), s)))))"

section \<open>Setup\<close>

definition set_initial_guess :: "mhe \<Rightarrow> (error + unit) \<times> mhe" where
  "set_initial_guess s =
    (if \<not> flag_setup s then (Inl (AssertionError NotSetupYet), s)
     else case opt_x_num s of
       None \<Rightarrow> (Inl (AttributeError ''opt_x_num''), s)
     | Some oxn \<Rightarrow>
        (Inr (), s\<lparr>opt_x_num := Some
           (ds_set (ds_set (ds_set (ds_set oxn
              [K ''_x''] (map2 fdiv (cat (x0 s)) (cat (x_scaling s))))
              [K ''_u''] (map2 fdiv (cat (u0 s)) (cat (u_scaling s))))
              [K ''_z''] (map2 fdiv (cat (z0 s)) (cat (z_scaling s))))
              [K ''_p_est''] (map2 fdiv (cat (p_est0 s)) (cat (p_est_scaling s))))\<rparr>))"

text \<open>
  \<open>setup\<close>: the structure of the nonlinear constraints (whose constructor raises on
  two constraints of the same name) and their bounds, the meta data of
  the history (reading \<open>n_horizon\<close> and \<open>t_step\<close>, which have no default), the validity
  check, the assembly, the setup flag and the initial guess.  \<open>prepare_data\<close> of the
  missing \<open>Optimizer\<close> class, which only prepares the storage of the optimal solutions
  in the history sink, is not modelled.
\<close>

definition mhe_setup :: "(mhe \<Rightarrow> error + discretization) \<Rightarrow> mhe \<Rightarrow> (error + unit) \<times> mhe" where
  "mhe_setup setup_discretization s =
    (case struct_SX (map (\<lambda>e. entry_shape (expr_name e) (expr_size e)) (nl_cons_list s)) of
       Inl e \<Rightarrow> (Inl e, s)
     | Inr nlc \<Rightarrow>
     let nub = struct_call nlc (Fin 0);
         nlb = fold (\<lambda>e d. ds_set d [K (expr_name e)] (nl_lb e)) (nl_cons_list s)
                 (struct_call nlc NInf);
         s1 = s\<lparr>nl_cons := Some nlc, nl_cons_lb := Some nlb, nl_cons_ub := Some nub\<rparr>
     in case n_horizon s1 of
          None \<Rightarrow> (Inl (AttributeError ''n_horizon''), s1)
        | Some N \<Rightarrow>
       (case t_step s1 of
          None \<Rightarrow> (Inl (AttributeError ''t_step''), s1)
        | Some dt \<Rightarrow>
          let s2 = s1\<lparr>data := set_meta (data s1)
                     \<lparr>meta_n_horizon = N, meta_t_step = dt,
                      meta_meas_from_data = meas_from_data s1,
                      meta_state_discretization = state_discretization s1,
                      meta_collocation_type = collocation_type s1,
                      meta_collocation_deg = collocation_deg s1,
                      meta_collocation_ni = collocation_ni s1,
                      meta_store_full_solution = store_full_solution s1,
                      meta_store_lagr_multiplier = store_lagr_multiplier s1,
                      meta_store_solver_stats = store_solver_stats s1,
                      meta_nlpsol_opts = nlpsol_opts s1\<rparr>\<rparr>
          in case check_validity s2 of
               (Inl e, s3) \<Rightarrow> (Inl e, s3)
             | (Inr u, s3) \<Rightarrow>
                (case setup_mhe_optim_problem setup_discretization s3 of
                   (Inl e, s4) \<Rightarrow> (Inl e, s4)
                 | (Inr u, s4) \<Rightarrow> set_initial_guess (s4\<lparr>flag_setup := True\<rparr>))))"

section \<open>The receding-horizon step\<close>

text \<open>
  Modelled from the spec: \<open>Optimizer.solve\<close> is not part of the source file.  The
  solver is a black box that receives the initial guess, the bounds and the parameter
  values, all held by the estimator, and returns a solution; \<open>solve\<close> stores the
  solution and the auxiliary expressions evaluated at it in the numeric buffers.  A
  solve that does not converge is not an error.
\<close>

type_synonym nlp_solver = "mhe \<Rightarrow> float list \<times> float list"

definition solve :: "nlp_solver \<Rightarrow> mhe \<Rightarrow> (error + unit) \<times> mhe" where
  "solve nlp s =
    (case problem s of
       None \<Rightarrow> (Inl (AttributeError ''S''), s)
     | Some pr \<Rightarrow>
        (Inr (), s\<lparr>opt_x_num := Some \<lparr>ds_labels = labels (opt_x pr), cat = fst (nlp s)\<rparr>,
                   opt_aux_num := Some \<lparr>ds_labels = labels (aux_struct pr), cat = snd (nlp s)\<rparr>\<rparr>))"

definition data_update_y :: "data \<Rightarrow> float list \<Rightarrow> data" where
  "data_update_y d y = d\<lparr>d_y := d_y d @ [y]\<rparr>"

text \<open>
  The second half of \<open>make_step\<close>, after the solver call: \<open>x_old\<close>, \<open>p_est_old\<close>,
  \<open>t\<close> and \<open>p_set0\<close> are the values of the locals \<open>x0\<close>, \<open>p_est0\<close>, \<open>t0\<close> and \<open>p_set0\<close>
  read before the solve.  The chained assignment
  \<open>p_est_next = self._p_est0 = ...\<close> rebinds the attribute before the input is
  extracted, so it survives an index error there; the local \<open>p_est0\<close> keeps the old
  values.  With a horizon of length 0 the index \<open>-1\<close> into the inputs raises.
\<close>

definition extract_and_record ::
  "mhe \<Rightarrow> float list \<Rightarrow> float list \<Rightarrow> float \<Rightarrow> float list \<Rightarrow> (error + float list) \<times> mhe" where
  "extract_and_record s x_old p_est_old t p_set0 =
    (case (problem s, opt_x_num s, opt_aux_num s, n_horizon s) of
       (Some pr, Some oxn, Some oan, Some N) \<Rightarrow>
        let c = n_coll pr;
            x_next = map2 fmul (ds_get oxn [K ''_x'', I N, I c]) (cat (x_scaling s));
            p_est_next = map2 fmul (ds_get oxn [K ''_p_est'']) (cat (p_est_scaling s));
            s1 = s\<lparr>p_est0 := (p_est0 s)\<lparr>cat := p_est_next\<rparr>\<rparr>
        in (case py_index N (- 1) of
              Inl e \<Rightarrow> (Inl e, s1)
            | Inr kl \<Rightarrow>
               let u_new = map2 fmul (ds_get oxn [K ''_u'', I kl]) (cat (u_scaling s1));
                   z_new = map2 fmul (ds_get oxn [K ''_z'', I kl, I c]) (cat (z_scaling s1));
                   aux0 = ds_get oan [K ''_aux'', I kl]
               in (case recombine s1 p_est_old p_set0 of
                     Inl e \<Rightarrow> (Inl e, s1)
                   | Inr p0 \<Rightarrow>
                      let d = data s1;
                          s2 = s1\<lparr>data := d\<lparr>d_x := d_x d @ [x_old], d_u := d_u d @ [u_new],
                                    d_z := d_z d @ [z_new], d_p := d_p d @ [p0],
                                    d_time := d_time d @ [t],
                                    d_aux_expression := d_aux_expression d @ [aux0]\<rparr>\<rparr>
                      in (case t_step s2 of
                            None \<Rightarrow> (Inl (AttributeError ''t_step''), s2)
                          | Some dt \<Rightarrow>
                             (Inr x_next,
                              s2\<lparr>t0 := fadd (t0 s2) dt,
                                 x0 := (x0 s2)\<lparr>cat := x_next\<rparr>,
                                 p_est0 := (p_est0 s2)\<lparr>cat := p_est_next\<rparr>,
                                 u0 := (u0 s2)\<lparr>cat := u_new\<rparr>,
                                 z0 := (z0 s2)\<lparr>cat := z_new\<rparr>\<rparr>))))
     | (None, _) \<Rightarrow> (Inl (AttributeError ''opt_x_num''), s)
     | _ \<Rightarrow> (Inl (AttributeError ''opt_x_num''), s))"

definition make_step :: "nlp_solver \<Rightarrow> mhe \<Rightarrow> float list \<Rightarrow> (error + float list) \<times> mhe" where
  "make_step nlp s y0 =
    (let s1 = s\<lparr>data := data_update_y (data s) y0\<rparr>;
         p_est_old = cat (p_est0 s1);
         x_old = cat (x0 s1);
         t = t0 s1
     in case tvp_fun s1 of
          None \<Rightarrow> (Inl (AttributeError ''tvp_fun''), s1)
        | Some tvpf \<Rightarrow>
       (case p_fun s1 of
          None \<Rightarrow> (Inl (AttributeError ''p_fun''), s1)
        | Some pf \<Rightarrow>
       (case y_fun s1 of
          None \<Rightarrow> (Inl (AttributeError ''y_fun''), s1)
        | Some yf \<Rightarrow>
       (case call_y_fun s1 yf t of
          Inl e \<Rightarrow> (Inl e, s1)
        | Inr (y_traj, yf') \<Rightarrow>
          let s2 = s1\<lparr>y_fun := Some yf'\<rparr>;
              p_set0 = cat (pf t)
          in (case opt_p_num s2 of
                None \<Rightarrow> (Inl (AttributeError ''opt_p_num''), s2)
              | Some opn \<Rightarrow>
                 let opn' = ds_set (ds_set (ds_set (ds_set (ds_set opn
                              [K ''_x_prev''] x_old)
                              [K ''_p_prev''] p_est_old)
                              [K ''_p_set''] p_set0)
                              [K ''_tvp''] (ds_get (tvpf t) [K ''_tvp'']))
                              [K ''_y_meas''] (ds_get y_traj [K ''y_meas''])
                 in (case solve nlp (s2\<lparr>opt_p_num := Some opn'\<rparr>) of
                       (Inl e, s3) \<Rightarrow> (Inl e, s3)
                     | (Inr u, s3) \<Rightarrow> extract_and_record s3 x_old p_est_old t p_set0))))))"

section \<open>Notions used to state the properties\<close>

text \<open>
  A well-formed structure has distinct entry names and distinct component labels.
  \<open>entry_of st v k\<close> reads entry \<open>k\<close> of the vector \<open>v\<close> laid out by \<open>st\<close>, that is
  \<open>st(v)[k]\<close>.
\<close>

definition wf_struct :: "struct \<Rightarrow> bool" where
  "wf_struct st = (distinct (keys st) \<and> distinct (labels st))"

definition entry_of :: "struct \<Rightarrow> float list \<Rightarrow> string \<Rightarrow> float list" where
  "entry_of st v k = ds_get \<lparr>ds_labels = labels st, cat = v\<rparr> [K k]"

text \<open>The kinds of constraint blocks and objective terms of the assembled problem.\<close>

fun is_defect :: "sx \<Rightarrow> bool" where
  "is_defect (Apply f args i) = (f = ''ifcn'' \<and> i = 0)"
| "is_defect _ = False"

fun is_continuity :: "sx \<Rightarrow> bool" where
  "is_continuity (Minus (Apply f args i) (OptX l)) = (f = ''ifcn'' \<and> i = 1)"
| "is_continuity _ = False"

fun is_stage_cost :: "sx \<Rightarrow> bool" where
  "is_stage_cost (Apply f args i) = (f = ''obj_fun'')"
| "is_stage_cost _ = False"

text \<open>
  A bound pair is violated when some component has lower bound \<open>>\<close> upper bound.  For
  values other than \<open>NaN\<close> this is the negation of lower \<open>\<le>\<close> upper.
\<close>

fun fle :: "float \<Rightarrow> float \<Rightarrow> bool" where
  "fle (Fin a) (Fin b) = (a \<le> b)"
| "fle NaN _ = False"
| "fle _ NaN = False"
| "fle NInf _ = True"
| "fle _ PInf = True"
| "fle _ _ = False"

definition violated :: "dmstruct \<Rightarrow> dmstruct \<Rightarrow> bool" where
  "violated lb ub =
     list_ex (\<lambda>i. fgt (cat lb ! i) (cat ub ! i)) [0..<min (length (cat lb)) (length (cat ub))]"

definition offending :: "dmstruct \<Rightarrow> dmstruct \<Rightarrow> label list" where
  "offending lb ub =
     map (\<lambda>i. ds_labels lb ! i)
       (filter (\<lambda>i. fgt (cat lb ! i) (cat ub ! i))
          [0..<min (length (ds_labels lb)) (min (length (cat lb)) (length (cat ub)))])"

datatype block_kind = DefectBlock | ContinuityBlock | PathBlock | OtherBlock

fun kind_of :: "sx \<Rightarrow> block_kind" where
  "kind_of (Apply f args i) =
     (if f = ''ifcn'' \<and> i = 0 then DefectBlock
      else if f = ''nl_cons_fun'' then PathBlock else OtherBlock)"
| "kind_of (Minus (Apply f args i) (OptX l)) =
     (if f = ''ifcn'' \<and> i = 1 then ContinuityBlock else OtherBlock)"
| "kind_of _ = OtherBlock"

text \<open>
  Lower \<open>\<le>\<close> upper in every component, and the absence of NaN among the components.
\<close>

definition bounds_le :: "dmstruct \<Rightarrow> dmstruct \<Rightarrow> bool" where
  "bounds_le lb ub = list_all (\<lambda>(a, b). fle a b) (zip (cat lb) (cat ub))"

definition nan_free :: "dmstruct \<Rightarrow> bool" where
  "nan_free d = list_all (\<lambda>a. a \<noteq> NaN) (cat d)"

text \<open>
  An estimator on which \<open>setup\<close> has not run, whose objective is compiled, and which
  asks for the default measurement callback.
\<close>

definition default_measurement_requested :: "mhe \<Rightarrow> bool" where
  "default_measurement_requested s =
     (\<not> flag_setup s \<and> \<not> flag_set_y_fun s \<and> meas_from_data s \<and>
      obj_fun s \<noteq> None \<and> arrival_cost_fun s \<noteq> None)"

text \<open>The estimator with other bounds on the estimated parameters.\<close>

definition with_p_est_bounds :: "dmstruct \<Rightarrow> dmstruct \<Rightarrow> mhe \<Rightarrow> mhe" where
  "with_p_est_bounds l u s = s\<lparr>p_est_lb := l, p_est_ub := u\<rparr>"

text \<open>
  The number of elements of an argument of \<open>set_initial_state\<close>, and the argument types
  that the function names as accepted.
\<close>

fun numel :: "x0_arg \<Rightarrow> nat option" where
  "numel (NdArray vs) = Some (length vs)"
| "numel (DM vs) = Some (length vs)"
| "numel (DMStruct d) = Some (length (cat d))"
| "numel (Other n) = n"

fun accepted_type :: "x0_arg \<Rightarrow> bool" where
  "accepted_type (Other n) = False"
| "accepted_type _ = True"

section \<open>A small estimator used for the concrete instances\<close>

definition example_model :: model where
  "example_model =
     \<lparr>m_setup = True,
      m_x = [entry_shape ''x'' 1],
      m_u = [entry_shape ''u'' 1],
      m_z = [entry_shape ''z'' 1],
      m_tvp = [],
      m_p = [(''default'', []), entry_shape ''a'' 1, entry_shape ''b'' 2, entry_shape ''c'' 1],
      m_y = [entry_shape ''y'' 1],
      m_aux_expression = [entry_shape ''e'' 1]\<rparr>"

definition example_disc :: "mhe \<Rightarrow> error + discretization" where
  "example_disc s = Inr \<lparr>n_g = 2, n_total_coll_points = 1\<rparr>"

definition example_cost :: expr where
  "example_cost = \<lparr>shape = (1, 1), symvar = [(''_x'', [K ''x'', I 0])]\<rparr>"

definition example_p_fun :: "float \<Rightarrow> dmstruct" where
  "example_p_fun t = \<lparr>ds_labels = [[K ''a'', I 0], [K ''c'', I 0]], cat = [Fin 7, Fin 9]\<rparr>"

definition example_y_fun :: "float \<Rightarrow> dmstruct" where
  "example_y_fun t = \<lparr>ds_labels = [[K ''y_meas'', I 0, K ''y'', I 0]], cat = [Fin 3]\<rparr>"

text \<open>
  The estimator of \<open>example_model\<close> with \<open>b\<close> estimated, horizon 1, step size 1, an
  objective and a fixed-parameter callback, and the default measurement callback
  requested.
\<close>

definition example_mhe :: mhe where
  "example_mhe =
     snd (set_p_fun
       (snd (set_objective
          ((projr (MHE example_model [''b'']))
             \<lparr>n_horizon := Some 1, t_step := Some (Fin 1), meas_from_data := True\<rparr>)
          example_cost example_cost))
       example_p_fun)"

definition example_nlp :: nlp_solver where
  "example_nlp s = (map (\<lambda>i. Fin (real i)) [1..<10], [Fin 42])"

text \<open>The example estimator with the lower bound of the state above its upper bound.\<close>

definition example_bad_x :: mhe where
  "example_bad_x =
     example_mhe\<lparr>x_lb := struct_call (m_x example_model) (Fin 2),
                  x_ub := struct_call (m_x example_model) (Fin 1)\<rparr>"

text \<open>
  The example estimator with the lower bounds of the state and of the input above their
  upper bounds, and the one whose lower bound of the state is NaN.
\<close>

definition example_bad_xu :: mhe where
  "example_bad_xu =
     example_mhe\<lparr>x_lb := struct_call (m_x example_model) (Fin 2),
                  x_ub := struct_call (m_x example_model) (Fin 1),
                  u_lb := struct_call (m_u example_model) (Fin 2),
                  u_ub := struct_call (m_u example_model) (Fin 1)\<rparr>"

definition example_nan_x :: mhe where
  "example_nan_x = example_mhe\<lparr>x_lb := struct_call (m_x example_model) NaN\<rparr>"

text \<open>The example estimator after \<open>setup\<close>.\<close>

definition example_assembled :: mhe where
  "example_assembled = snd (mhe_setup example_disc example_mhe)"

section \<open>Properties of the parameter partition\<close>

lemma labels_Nil [simp]: "labels [] = []" by (simp add: labels_def)
lemma labels_Cons: "labels (e # st) = entry_labels e @ labels st" by (simp add: labels_def)
lemma labels_default [simp]: "labels ((k, []) # st) = labels st"
  by (simp add: labels_def entry_labels_def)

lemma getitem_distinct:
  "distinct (map fst st) \<Longrightarrow> (k, ls) \<in> set st \<Longrightarrow> getitem st k = ls"
  by (simp add: getitem_def)

lemma partition_entries:
  assumes "distinct (keys p)"
  shows "map (\<lambda>k. (k, getitem p k)) (filter Q (keys p)) = filter (\<lambda>e. Q (fst e)) p"
proof -
  have fixp: "\<And>e. e \<in> set p \<Longrightarrow> (fst e, getitem p (fst e)) = e"
    using assms by (metis getitem_distinct keys_def prod.collapse)
  have "map (\<lambda>k. (k, getitem p k)) (filter Q (keys p))
      = map (\<lambda>e. (fst e, getitem p (fst e))) (filter (\<lambda>e. Q (fst e)) p)"
    by (simp add: keys_def filter_map comp_def)
  also have "\<dots> = map (\<lambda>e. e) (filter (\<lambda>e. Q (fst e)) p)"
    by (rule map_cong) (auto simp: fixp)
  finally show ?thesis by simp
qed

lemma filter_entry_labels:
  "filter (\<lambda>l. take (Suc 0) l = [K k]) (entry_labels e) = (if fst e = k then entry_labels e else [])"
  by (auto simp: entry_labels_def filter_empty_conv)

lemma filter_labels:
  "distinct (map fst st) \<Longrightarrow>
   filter (\<lambda>l. take (Suc 0) l = [K k]) (labels st) =
     (case map_of st k of None \<Rightarrow> [] | Some ls \<Rightarrow> entry_labels (k, ls))"
proof (induction st)
  case Nil then show ?case by simp
next
  case (Cons e st)
  obtain k' ls' where e: "e = (k', ls')" by (cases e)
  show ?case
  proof (cases "k' = k")
    case True
    with Cons e have "map_of st k = None" by (auto simp: map_of_eq_None_iff)
    with Cons e True show ?thesis by (simp add: labels_Cons filter_entry_labels)
  next
    case False
    with Cons e show ?thesis by (simp add: labels_Cons filter_entry_labels)
  qed
qed

lemma map_of_zip_filter:
  "distinct xs \<Longrightarrow> length xs = length vs \<Longrightarrow>
   map snd (filter (\<lambda>(l, v). Q l) (zip xs vs)) = map (\<lambda>l. the (map_of (zip xs vs) l)) (filter Q xs)"
proof (induction xs vs rule: list_induct2')
  case (4 x xs v vs)
  then have "map (\<lambda>l. the (map_of (zip (x # xs) (v # vs)) l)) (filter Q xs)
           = map (\<lambda>l. the (map_of (zip xs vs) l)) (filter Q xs)"
    by (intro map_cong) auto
  with 4 show ?case by simp
qed simp_all

lemma zip_map_filter:
  "map snd (filter (\<lambda>(l, v). Q l) (zip xs (map g xs))) = map g (filter Q xs)"
  by (induction xs) auto


lemma set_labels_filter: "set (labels (filter Q st)) \<subseteq> set (labels st)"
  by (induction st) (auto simp: labels_Cons)

lemma set_labels_partition:
  "set (labels (filter Q st)) \<union> set (labels (filter (\<lambda>e. \<not> Q e) st)) = set (labels st)"
  by (induction st) (auto simp: labels_Cons)

lemma distinct_labels_partition:
  "distinct (labels st) \<Longrightarrow>
   distinct (labels (filter Q st) @ labels (filter (\<lambda>e. \<not> Q e) st))"
proof (induction st)
  case Nil then show ?case by simp
next
  case (Cons e st)
  have sub: "set (labels (filter Q st)) \<subseteq> set (labels st)"
            "set (labels (filter (\<lambda>e. \<not> Q e) st)) \<subseteq> set (labels st)"
    by (rule set_labels_filter)+
  from Cons have "distinct (labels (filter Q st) @ labels (filter (\<lambda>e. \<not> Q e) st))"
    and "distinct (entry_labels e)" and "set (entry_labels e) \<inter> set (labels st) = {}"
    by (auto simp: labels_Cons)
  with sub show ?case by (auto simp: labels_Cons)
qed

lemma MHE_Inr:
  assumes "MHE m L = Inr s" and "distinct (keys (m_p m))"
  shows "p_est s = (''default'', []) # filter (\<lambda>e. fst e \<in> set L) (m_p m)"
    and "p_set s = filter (\<lambda>e. fst e \<notin> set L) (m_p m)"
    and "p_cat_fun s = \<lparr>f_name = ''p_cat_fun'',
           f_in = [labels (filter (\<lambda>e. fst e \<in> set L) (m_p m)),
                   labels (filter (\<lambda>e. fst e \<notin> set L) (m_p m))],
           f_out = labels (m_p m)\<rparr>"
  using assms
  by (auto simp: MHE_def Let_def Function_def struct_symSX_def partition_entries
           split: if_splits sum.splits)

lemma MHE_fails_iff:
  assumes "m_setup m" and "distinct (keys (m_p m))"
  shows "isl (MHE m L) = (''default'' \<in> set L \<and> ''default'' \<in> set (keys (m_p m)))"
proof -
  let ?p = "m_p m"
  have cover: "set (labels ?p) \<subseteq>
        set (labels (filter (\<lambda>e. fst e \<in> set L) ?p)) \<union>
        set (labels (filter (\<lambda>e. fst e \<notin> set L) ?p))"
    using set_labels_partition [of "\<lambda>e. fst e \<in> set L" ?p] by simp
  have k1: "keys ((''default'', []) # filter (\<lambda>e. fst e \<in> set L) ?p) =
              ''default'' # filter (\<lambda>k. k \<in> set L) (keys ?p)"
    by (simp add: keys_def filter_map comp_def)
  have k2: "keys (filter (\<lambda>e. fst e \<notin> set L) ?p) = filter (\<lambda>k. k \<notin> set L) (keys ?p)"
    by (simp add: keys_def filter_map comp_def)
  have d2: "distinct (keys (filter (\<lambda>e. fst e \<notin> set L) ?p))"
    unfolding k2 using assms(2) by simp
  have d1: "distinct (keys ((''default'', []) # filter (\<lambda>e. fst e \<in> set L) ?p)) =
              (\<not> (''default'' \<in> set L \<and> ''default'' \<in> set (keys ?p)))"
    unfolding k1 using assms(2) by auto
  show ?thesis
    using assms cover d1 d2
    by (simp add: MHE_def Let_def Function_def struct_symSX_def partition_entries
             del: distinct.simps)
qed

lemma MHE_succeeds:
  assumes "m_setup m" and "distinct (keys (m_p m))"
      and "\<not> (''default'' \<in> set L \<and> ''default'' \<in> set (keys (m_p m)))"
  shows "\<exists>s. MHE m L = Inr s"
  using MHE_fails_iff [OF assms(1,2), of L] assms(3) by (cases "MHE m L") auto

lemma map_of_filter_entries:
  "distinct (map fst st) \<Longrightarrow> map_of (filter (\<lambda>e. Q (fst e)) st) k = (if Q k then map_of st k else None)"
  by (induction st) (auto simp: map_of_eq_None_iff rev_image_eqI)

lemma call_gather:
  assumes "length pe = length A" "length ps = length B" "distinct (A @ B)" "set P \<subseteq> set (A @ B)"
  shows "call \<lparr>f_name = n, f_in = [A, B], f_out = P\<rparr> [pe, ps] =
         Inr (map (\<lambda>l. if l \<in> set A then the (map_of (zip A pe) l) else the (map_of (zip B ps) l)) P)"
proof -
  define env where "env = map_of (zip (A @ B) (pe @ ps))"
  have env: "env l =
       (if l \<in> set A then map_of (zip A pe) l else map_of (zip B ps) l)" for l
  proof (cases "l \<in> set A")
    case True
    then have "map_of (zip A pe) l \<noteq> None" using assms(1) by (simp add: map_of_zip_is_None)
    then show ?thesis using True assms(1)
      by (auto simp: env_def zip_append map_add_def split: option.splits)
  next
    case False
    then show ?thesis using assms(1)
      by (auto simp: env_def zip_append map_add_def split: option.splits
               dest: map_of_SomeD set_zip_leftD)
  qed
  have bound: "list_all (\<lambda>s. env s \<noteq> None) P"
    unfolding env_def list_all_iff
  proof
    fix l assume "l \<in> set P"
    with assms(4) have "l \<in> set (A @ B)" by blast
    moreover have "length (A @ B) = length (pe @ ps)" using assms(1,2) by simp
    ultimately show "map_of (zip (A @ B) (pe @ ps)) l \<noteq> None"
      using map_of_zip_is_None by metis
  qed
  have eq: "map (\<lambda>s. the (env s)) P =
        map (\<lambda>l. if l \<in> set A then the (map_of (zip A pe) l) else the (map_of (zip B ps) l)) P"
    by (rule map_cong) (auto simp: env)
  have "call \<lparr>f_name = n, f_in = [A, B], f_out = P\<rparr> [pe, ps] =
        (if list_all (\<lambda>s. env s \<noteq> None) P then Inr (map (\<lambda>s. the (env s)) P)
         else Inl (CasadiError ''free variables''))"
    unfolding env_def
    by (simp only: call_def Let_def sx_function.select_convs list.map concat.simps
          append_Nil2 assms(1,2) simp_thms if_False)
  then show ?thesis by (simp only: bound eq if_True)
qed

text \<open>
  C1, as stated, fails for one kind of partition: when the list of estimated names
  contains the name \<open>default\<close> of the model's own placeholder entry, the estimated
  structure would have two entries of that name, the construction raises and no
  recombination function is built.  The instance is the example model with the list
  \<open>['default']\<close>.
\<close>

theorem default_entry_cannot_be_estimated:
  "wf_struct (m_p example_model) \<and> m_setup example_model \<and>
   ''default'' \<in> set (keys (m_p example_model)) \<and>
   isl (MHE example_model [''default'']) \<and>
   projl (MHE example_model [''default'']) = CasadiError ''duplicate entry''"
  by code_simp

text \<open>
  C1, amended.  Let the model be set up and its parameter structure well formed.  The
  construction raises when the list of estimated names contains the name \<open>default\<close>
  of an entry of the model.  For every other list, that is for every other partition
  (the empty list included), the construction succeeds, and for all values of the
  estimated and the fixed parameters (of the sizes of the two partial structures) the
  recombination function returns a vector of the size of the model's parameter structure
  in which every parameter of the model, read at its own position in the model's
  ordering, has the value it has in the estimated vector when its name is in the list
  and in the fixed vector otherwise.
\<close>

theorem recombine_original_order:
  assumes "wf_struct (m_p m)" and "m_setup m"
  shows "(''default'' \<in> set L \<and> ''default'' \<in> set (keys (m_p m)) \<longrightarrow> isl (MHE m L)) \<and>
   (\<not> (''default'' \<in> set L \<and> ''default'' \<in> set (keys (m_p m))) \<longrightarrow>
     (\<exists>s. MHE m L = Inr s \<and>
       (\<forall>pe ps. length pe = size_st (p_est s) \<and> length ps = size_st (p_set s) \<longrightarrow>
          (\<exists>r. recombine s pe ps = Inr r \<and> length r = size_st (m_p m) \<and>
             (\<forall>k \<in> set (keys (m_p m)).
                entry_of (m_p m) r k =
                  (if k \<in> set L then entry_of (p_est s) pe k else entry_of (p_set s) ps k))))))"
proof (intro conjI impI)
  from assms have dk0: "distinct (keys (m_p m))" by (simp add: wf_struct_def)
  show "isl (MHE m L)" if "''default'' \<in> set L \<and> ''default'' \<in> set (keys (m_p m))"
    using MHE_fails_iff [OF assms(2) dk0, of L] that by simp
next
  assume nd: "\<not> (''default'' \<in> set L \<and> ''default'' \<in> set (keys (m_p m)))"
  show "\<exists>s. MHE m L = Inr s \<and>
       (\<forall>pe ps. length pe = size_st (p_est s) \<and> length ps = size_st (p_set s) \<longrightarrow>
          (\<exists>r. recombine s pe ps = Inr r \<and> length r = size_st (m_p m) \<and>
             (\<forall>k \<in> set (keys (m_p m)).
                entry_of (m_p m) r k =
                  (if k \<in> set L then entry_of (p_est s) pe k else entry_of (p_set s) ps k))))"
  proof -
  let ?p = "m_p m"
  let ?Ein = "filter (\<lambda>e. fst e \<in> set L) ?p"
  let ?Eout = "filter (\<lambda>e. fst e \<notin> set L) ?p"
  let ?A = "labels ?Ein" and ?B = "labels ?Eout" and ?P = "labels ?p"
  from assms have dk: "distinct (keys ?p)" and dl: "distinct ?P" by (simp_all add: wf_struct_def)
  from MHE_succeeds [OF assms(2) dk nd] obtain s where s: "MHE m L = Inr s" by blast
  note st = MHE_Inr [OF s dk]
  have dAB: "distinct (?A @ ?B)" using distinct_labels_partition [OF dl] .
  have cover: "set ?P \<subseteq> set (?A @ ?B)"
    using set_labels_partition [of "\<lambda>e. fst e \<in> set L" ?p] by simp
  have disj: "l \<in> set ?B \<Longrightarrow> l \<notin> set ?A" for l using dAB by auto
  { fix pe ps :: "float list"
    assume len: "length pe = size_st (p_est s)" "length ps = size_st (p_set s)"
    then have lA: "length pe = length ?A" and lB: "length ps = length ?B"
      by (simp_all add: st size_st_def)
    let ?g = "\<lambda>l. if l \<in> set ?A then the (map_of (zip ?A pe) l) else the (map_of (zip ?B ps) l)"
    let ?r = "map ?g ?P"
    have r: "recombine s pe ps = Inr ?r"
      unfolding recombine_def st using call_gather [OF lA lB dAB cover] .
    have slices: "entry_of ?p ?r k =
        (if k \<in> set L then entry_of (p_est s) pe k else entry_of (p_set s) ps k)"
      if k: "k \<in> set (keys ?p)" for k
    proof -
      have "map_of ?p k \<noteq> None" using k by (simp add: map_of_eq_None_iff keys_def)
      then obtain ls where ls: "map_of ?p k = Some ls" by blast
      let ?Q = "\<lambda>l. take (Suc 0) l = [K k]"
      have lhs: "entry_of ?p ?r k = map ?g (entry_labels (k, ls))"
        using dk ls by (simp add: entry_of_def ds_get_def zip_map_filter filter_labels keys_def)
      show ?thesis
      proof (cases "k \<in> set L")
        case True
        have dE: "distinct (map fst ?Ein)" using dk by (simp add: keys_def distinct_map_filter)
        have "map_of ?Ein k = (if k \<in> set L then map_of ?p k else None)"
          using dk unfolding keys_def by (rule map_of_filter_entries)
        then have mE: "map_of ?Ein k = Some ls" using True ls by simp
        have fA: "filter ?Q ?A = entry_labels (k, ls)"
          unfolding filter_labels [OF dE] mE by simp
        have inA: "set (entry_labels (k, ls)) \<subseteq> set ?A"
          using filter_is_subset [of ?Q ?A] unfolding fA .
        have dA: "distinct ?A" using dAB by simp
        have "entry_of (p_est s) pe k = map (\<lambda>l. the (map_of (zip ?A pe) l)) (filter ?Q ?A)"
          using map_of_zip_filter [OF dA lA [symmetric], of ?Q] by (simp add: entry_of_def ds_get_def st)
        also have "\<dots> = map ?g (entry_labels (k, ls))"
          unfolding fA using inA by (intro map_cong) auto
        finally show ?thesis using True lhs by simp
      next
        case False
        have dE: "distinct (map fst ?Eout)" using dk by (simp add: keys_def distinct_map_filter)
        have "map_of ?Eout k = (if k \<notin> set L then map_of ?p k else None)"
          using dk unfolding keys_def by (rule map_of_filter_entries)
        then have mE: "map_of ?Eout k = Some ls" using False ls by simp
        have fB: "filter ?Q ?B = entry_labels (k, ls)"
          unfolding filter_labels [OF dE] mE by simp
        have inB: "set (entry_labels (k, ls)) \<subseteq> set ?B"
          using filter_is_subset [of ?Q ?B] unfolding fB .
        have dB: "distinct ?B" using dAB by simp
        have "entry_of (p_set s) ps k = map (\<lambda>l. the (map_of (zip ?B ps) l)) (filter ?Q ?B)"
          using map_of_zip_filter [OF dB lB [symmetric], of ?Q] by (simp add: entry_of_def ds_get_def st)
        also have "\<dots> = map ?g (entry_labels (k, ls))"
          unfolding fB using inB disj by (intro map_cong) auto
        finally show ?thesis using False lhs by simp
      qed
    qed
    have "\<exists>r. recombine s pe ps = Inr r \<and> length r = size_st ?p \<and>
           (\<forall>k \<in> set (keys ?p).
              entry_of ?p r k =
                (if k \<in> set L then entry_of (p_est s) pe k else entry_of (p_set s) ps k))"
      using r slices by (intro exI [of _ ?r]) (simp add: size_st_def)
  }
  with s show ?thesis by blast
qed
qed

theorem recombine_original_order_witness:
  "wf_struct (m_p example_model) \<and> m_setup example_model \<and>
   \<not> (''default'' \<in> set [''b''] \<and> ''default'' \<in> set (keys (m_p example_model))) \<and>
   (\<exists>s. MHE example_model [''b''] = Inr s \<and>
      length [Fin 2, Fin 3] = size_st (p_est s) \<and> length [Fin 1, Fin 4] = size_st (p_set s) \<and>
      recombine s [Fin 2, Fin 3] [Fin 1, Fin 4] = Inr [Fin 1, Fin 2, Fin 3, Fin 4] \<and>
      (\<exists>r. recombine s [Fin 2, Fin 3] [Fin 1, Fin 4] = Inr r \<and>
           length r = size_st (m_p example_model) \<and>
           (\<forall>k \<in> set (keys (m_p example_model)).
              entry_of (m_p example_model) r k =
                (if k \<in> set [''b''] then entry_of (p_est s) [Fin 2, Fin 3] k
                 else entry_of (p_set s) [Fin 1, Fin 4] k)))) \<and>
   ''default'' \<in> set [''default''] \<and> ''default'' \<in> set (keys (m_p example_model)) \<and>
   isl (MHE example_model [''default''])"
proof -
  have h1: "wf_struct (m_p example_model)" by code_simp
  have h2: "m_setup example_model" by code_simp
  have h3: "\<not> (''default'' \<in> set [''b''] \<and> ''default'' \<in> set (keys (m_p example_model)))"
    by code_simp
  have h4: "''default'' \<in> set [''default''] \<and> ''default'' \<in> set (keys (m_p example_model))"
    by code_simp
  from recombine_original_order [OF h1 h2, of "[''b'']"] h3
  obtain s where s: "MHE example_model [''b''] = Inr s"
    and a: "\<And>pe ps. length pe = size_st (p_est s) \<and> length ps = size_st (p_set s) \<Longrightarrow>
        (\<exists>r. recombine s pe ps = Inr r \<and> length r = size_st (m_p example_model) \<and>
           (\<forall>k \<in> set (keys (m_p example_model)).
              entry_of (m_p example_model) r k =
                (if k \<in> set [''b''] then entry_of (p_est s) pe k else entry_of (p_set s) ps k)))"
    by blast
  have p: "s = projr (MHE example_model [''b''])" using s by simp
  have l1: "length [Fin 2, Fin 3] = size_st (p_est s)" unfolding p by code_simp
  have l2: "length [Fin 1, Fin 4] = size_st (p_set s)" unfolding p by code_simp
  have r: "recombine s [Fin 2, Fin 3] [Fin 1, Fin 4] = Inr [Fin 1, Fin 2, Fin 3, Fin 4]"
    unfolding p by code_simp
  from recombine_original_order [OF h1 h2, of "[''default'']"] h4
  have f: "isl (MHE example_model [''default''])" by blast
  from a [of "[Fin 2, Fin 3]" "[Fin 1, Fin 4]"] l1 l2 s r h1 h2 h3 h4 f show ?thesis by blast
qed

text \<open>
  C9, as stated, fails: a name of the list that the model does not have is not
  rejected.  In the instance below the list names only \<open>q\<close>, which the example model
  does not have, and the construction succeeds.
\<close>

theorem absent_name_accepted:
  "''q'' \<notin> set (keys (m_p example_model)) \<and> \<not> isl (MHE example_model [''q''])"
  by code_simp

text \<open>
  C9, amended.  A name of the list that is absent from the model never makes the
  construction fail: absent names are ignored, the outcome (the estimator, or the
  failure) is the one obtained from the list without them.  For a model that is set up
  and has distinct parameter names, the construction fails only when the list contains
  the name \<open>default\<close> of an entry of the model, which the estimated structure would
  then hold twice.
\<close>

theorem absent_names_ignored:
  assumes "m_setup m" and "distinct (keys (m_p m))"
  shows "MHE m L = MHE m (filter (\<lambda>k. k \<in> set (keys (m_p m))) L) \<and>
         isl (MHE m L) = (''default'' \<in> set L \<and> ''default'' \<in> set (keys (m_p m)))"
proof -
  have f: "filter (\<lambda>p_i. p_i \<in> set (filter (\<lambda>k. k \<in> set (keys (m_p m))) L)) (keys (m_p m))
      = filter (\<lambda>p_i. p_i \<in> set L) (keys (m_p m))"
    "filter (\<lambda>p_i. p_i \<notin> set (filter (\<lambda>k. k \<in> set (keys (m_p m))) L)) (keys (m_p m))
      = filter (\<lambda>p_i. p_i \<notin> set L) (keys (m_p m))"
    by (auto intro: filter_cong)
  have "MHE m L = MHE m (filter (\<lambda>k. k \<in> set (keys (m_p m))) L)"
    unfolding MHE_def Let_def by (simp only: f)
  with MHE_fails_iff [OF assms, of L] show ?thesis by blast
qed

theorem absent_names_ignored_witness:
  "m_setup example_model \<and> distinct (keys (m_p example_model)) \<and>
   MHE example_model [''b'', ''q''] =
     MHE example_model (filter (\<lambda>k. k \<in> set (keys (m_p example_model))) [''b'', ''q'']) \<and>
   filter (\<lambda>k. k \<in> set (keys (m_p example_model))) [''b'', ''q''] = [''b''] \<and>
   ''q'' \<notin> set (keys (m_p example_model)) \<and>
   \<not> isl (MHE example_model [''b'', ''q''])"
proof -
  have h1: "m_setup example_model" by code_simp
  have h2: "distinct (keys (m_p example_model))" by code_simp
  have h3: "filter (\<lambda>k. k \<in> set (keys (m_p example_model))) [''b'', ''q''] = [''b'']"
    by code_simp
  have h4: "''q'' \<notin> set (keys (m_p example_model))" by code_simp
  have h5: "\<not> (''default'' \<in> set [''b'', ''q''] \<and> ''default'' \<in> set (keys (m_p example_model)))"
    by code_simp
  from absent_names_ignored [OF h1 h2, of "[''b'', ''q'']"] h1 h2 h3 h4 h5 show ?thesis by blast
qed

section \<open>Properties of the initial state\<close>

text \<open>
  C10.  When the number of elements of \<open>x0\<close> differs from the size of the model's
  state structure, \<open>set_initial_state\<close> raises and the estimator (initial state,
  history, clock and everything else) is unchanged; it succeeds only for an argument
  of the right size and of an accepted type; and whenever it raises, the estimator is
  unchanged.
\<close>

theorem set_initial_state_size_guard:
  "(numel x \<noteq> Some (size_st (m_x (model s))) \<longrightarrow>
      (\<exists>e. set_initial_state s x rh = (Inl e, s))) \<and>
   (fst (set_initial_state s x rh) = Inr () \<longrightarrow>
      numel x = Some (size_st (m_x (model s))) \<and> accepted_type x) \<and>
   (isl (fst (set_initial_state s x rh)) \<longrightarrow> snd (set_initial_state s x rh) = s)"
proof (cases x)
  case (Other n)
  then show ?thesis by (cases n) (auto simp: set_initial_state_def split: py_bool_arg.splits)
qed (auto simp: set_initial_state_def split: py_bool_arg.splits)

theorem set_initial_state_size_guard_witness:
  "numel (NdArray [Fin 1, Fin 2]) \<noteq> Some (size_st (m_x (model example_mhe))) \<and>
   (\<exists>e. set_initial_state example_mhe (NdArray [Fin 1, Fin 2]) (PyBool False) = (Inl e, example_mhe)) \<and>
   isl (fst (set_initial_state example_mhe (NdArray [Fin 1, Fin 2]) (PyBool False))) \<and>
   snd (set_initial_state example_mhe (NdArray [Fin 1, Fin 2]) (PyBool False)) = example_mhe \<and>
   fst (set_initial_state example_mhe (NdArray [Fin 5]) (PyBool True)) = Inr () \<and>
   numel (NdArray [Fin 5]) = Some (size_st (m_x (model example_mhe))) \<and>
   accepted_type (NdArray [Fin 5])"
proof -
  have h1: "numel (NdArray [Fin 1, Fin 2]) \<noteq> Some (size_st (m_x (model example_mhe)))"
    by code_simp
  have h2: "fst (set_initial_state example_mhe (NdArray [Fin 5]) (PyBool True)) = Inr ()"
    by code_simp
  have h3: "isl (fst (set_initial_state example_mhe (NdArray [Fin 1, Fin 2]) (PyBool False)))"
    by code_simp
  from set_initial_state_size_guard [of "NdArray [Fin 1, Fin 2]" example_mhe "PyBool False"]
       set_initial_state_size_guard [of "NdArray [Fin 5]" example_mhe "PyBool True"]
       h1 h2 h3
  show ?thesis by blast
qed

section \<open>Properties of the validity check\<close>

lemma check_y_fun_registered:
  "flag_set_y_fun s \<Longrightarrow> check_y_fun s = (Inl (Exception MeasFunMissing), s)"
  by (simp add: check_y_fun_def)

lemma set_tvp_fun_keeps_y_flag: "flag_set_y_fun (snd (set_tvp_fun s f)) = flag_set_y_fun s"
  by (simp add: set_tvp_fun_def split: sum.splits)

lemma set_p_fun_keeps_y_flag: "flag_set_y_fun (snd (set_p_fun s f)) = flag_set_y_fun s"
  by (simp add: set_p_fun_def)

lemma inject_tvp_fun_keeps_y_flag: "flag_set_y_fun (snd (inject_tvp_fun s)) = flag_set_y_fun s"
  by (simp add: inject_tvp_fun_def set_tvp_fun_keeps_y_flag split: sum.splits)

lemma inject_p_fun_keeps_y_flag: "flag_set_y_fun (snd (inject_p_fun s)) = flag_set_y_fun s"
  by (simp add: inject_p_fun_def set_p_fun_keeps_y_flag)

lemma registered_callback_always_rejected:
  assumes "flag_set_y_fun s"
  shows "isl (fst (check_validity s))"
proof -
  obtain r1 s1 where i1: "inject_tvp_fun s = (r1, s1)" by (cases "inject_tvp_fun s")
  obtain r2 s2 where i2: "inject_p_fun s1 = (r2, s2)" by (cases "inject_p_fun s1")
  have "flag_set_y_fun s1" using inject_tvp_fun_keeps_y_flag [of s] i1 assms by simp
  then have "flag_set_y_fun s2" using inject_p_fun_keeps_y_flag [of s1] i2 by simp
  then have "check_y_fun s2 = (Inl (Exception MeasFunMissing), s2)"
    by (rule check_y_fun_registered)
  then show ?thesis using i1 i2
    by (auto simp: check_validity_def split: option.splits sum.splits)
qed

text \<open>
  C3 holds of the intended behaviour and fails on the code.  The claim says that
  \<open>check_validity\<close> fails on the measurement requirement only when neither a callback
  was registered nor the default was requested.  The code tests
  \<open>flags['set_y_fun'] == False and meas_from_data\<close> and raises in the \<open>else\<close> branch, so
  a registered callback always ends in the exception whose message asks the caller to
  register one (lemma \<open>registered_callback_always_rejected\<close>).  The instance: the
  example estimator without the default flag, after \<open>set_y_fun\<close> accepted a callback
  of the template's shape.
\<close>

theorem registered_measurement_callback_rejected:
  "fst (set_y_fun (example_mhe\<lparr>meas_from_data := False\<rparr>) (UserY example_y_fun)) = Inr () \<and>
   flag_set_y_fun (snd (set_y_fun (example_mhe\<lparr>meas_from_data := False\<rparr>) (UserY example_y_fun))) \<and>
   fst (check_validity (snd (set_y_fun (example_mhe\<lparr>meas_from_data := False\<rparr>) (UserY example_y_fun))))
     = Inl (Exception MeasFunMissing)"
  by code_simp

lemma zip_as_map_upt:
  "zip xs ys = map (\<lambda>i. (xs ! i, ys ! i)) [0..<min (length xs) (length ys)]"
  by (simp add: list_eq_iff_nth_eq)

lemma np_any_bound_check: "np_any (bound_check lb ub) = violated lb ub"
  by (auto simp: np_any_def bound_check_def violated_def list_ex_iff zip_as_map_upt)

lemma bound_fail_offending: "bound_fail lb ub = offending lb ub"
proof -
  let ?n = "min (length (ds_labels lb)) (min (length (cat lb)) (length (cat ub)))"
  have "bound_fail lb ub =
        map (\<lambda>i. ds_labels lb ! i) (filter (\<lambda>i. bound_check lb ub ! i) [0..<?n])"
    unfolding bound_fail_def
    by (subst zip_as_map_upt) (simp add: filter_map comp_def bound_check_def)
  also have "filter (\<lambda>i. bound_check lb ub ! i) [0..<?n]
           = filter (\<lambda>i. fgt (cat lb ! i) (cat ub ! i)) [0..<?n]"
    by (rule filter_cong) (auto simp: bound_check_def)
  finally show ?thesis by (simp add: offending_def)
qed

lemma check_bounds_three:
  "check_bounds [(xl, xu), (ul, uu), (zl, zu)] =
     (if violated xl xu then Some (Exception (BoundsInconsistent (offending xl xu)))
      else if violated ul uu then Some (Exception (BoundsInconsistent (offending ul uu)))
      else if violated zl zu then Some (Exception (BoundsInconsistent (offending zl zu)))
      else None)"
  by (simp add: np_any_bound_check bound_fail_offending)

lemma fgt_fle: "a \<noteq> NaN \<Longrightarrow> b \<noteq> NaN \<Longrightarrow> fgt a b = (\<not> fle a b)"
  by (cases a; cases b) auto

lemma violated_iff:
  "violated lb ub = (\<exists>i. i < length (cat lb) \<and> i < length (cat ub) \<and> fgt (cat lb ! i) (cat ub ! i))"
  by (auto simp: violated_def list_ex_iff)

lemma later_stages_no_bounds_error:
  "fst (inject_tvp_fun s) \<noteq> Inl (Exception (BoundsInconsistent ls))"
  "fst (inject_p_fun s) \<noteq> Inl (Exception (BoundsInconsistent ls))"
  "fst (check_y_fun s) \<noteq> Inl (Exception (BoundsInconsistent ls))"
  by (auto simp: inject_tvp_fun_def inject_p_fun_def check_y_fun_def set_tvp_fun_def
        set_p_fun_def set_y_fun_def get_tvp_template_def get_y_template_def Let_def
        split: sum.splits option.splits if_splits prod.splits y_callback.splits)

lemma check_validity_bounds:
  assumes "flag_set_objective s"
      and "flag_set_tvp_fun s \<or> size_st (m_tvp (model s)) = 0"
      and "flag_set_p_fun s \<or> size_st (p_set s) = 0"
  shows "(\<exists>ls. fst (check_validity s) = Inl (Exception (BoundsInconsistent ls))) =
         (violated (x_lb s) (x_ub s) \<or> violated (u_lb s) (u_ub s) \<or> violated (z_lb s) (z_ub s))"
    and "violated (x_lb s) (x_ub s) \<or> violated (u_lb s) (u_ub s) \<or> violated (z_lb s) (z_ub s) \<Longrightarrow>
         check_validity s =
           (Inl (Exception (BoundsInconsistent
              (if violated (x_lb s) (x_ub s) then offending (x_lb s) (x_ub s)
               else if violated (u_lb s) (u_ub s) then offending (u_lb s) (u_ub s)
               else offending (z_lb s) (z_ub s)))), s)"
proof -
  show "violated (x_lb s) (x_ub s) \<or> violated (u_lb s) (u_ub s) \<or> violated (z_lb s) (z_ub s) \<Longrightarrow>
         check_validity s =
           (Inl (Exception (BoundsInconsistent
              (if violated (x_lb s) (x_ub s) then offending (x_lb s) (x_ub s)
               else if violated (u_lb s) (u_ub s) then offending (u_lb s) (u_ub s)
               else offending (z_lb s) (z_ub s)))), s)"
    using assms by (auto simp: check_validity_def check_bounds_three simp del: check_bounds.simps)
  then have a: "violated (x_lb s) (x_ub s) \<or> violated (u_lb s) (u_ub s) \<or> violated (z_lb s) (z_ub s)
     \<Longrightarrow> \<exists>ls. fst (check_validity s) = Inl (Exception (BoundsInconsistent ls))"
    by (metis fst_conv)
  have b: "fst (check_validity s) \<noteq> Inl (Exception (BoundsInconsistent ls))"
    if "\<not> (violated (x_lb s) (x_ub s) \<or> violated (u_lb s) (u_ub s) \<or> violated (z_lb s) (z_ub s))"
    for ls
  proof -
    obtain r1 s1 where i1: "inject_tvp_fun s = (r1, s1)" by (cases "inject_tvp_fun s")
    obtain r2 s2 where i2: "inject_p_fun s1 = (r2, s2)" by (cases "inject_p_fun s1")
    show ?thesis
      using that assms i1 i2 later_stages_no_bounds_error(1) [of s ls]
        later_stages_no_bounds_error(2) [of s1 ls] later_stages_no_bounds_error(3) [of s2 ls]
      by (auto simp: check_validity_def check_bounds_three simp del: check_bounds.simps
               split: sum.splits)
  qed
  show "(\<exists>ls. fst (check_validity s) = Inl (Exception (BoundsInconsistent ls))) =
         (violated (x_lb s) (x_ub s) \<or> violated (u_lb s) (u_ub s) \<or> violated (z_lb s) (z_ub s))"
    using a b by blast
qed

lemma wpb_sel:
  "n_horizon (with_p_est_bounds l u s) = n_horizon s"
  "model (with_p_est_bounds l u s) = model s"
  "tvp_fun (with_p_est_bounds l u s) = tvp_fun s"
  "p_fun (with_p_est_bounds l u s) = p_fun s"
  "p_set (with_p_est_bounds l u s) = p_set s"
  "data (with_p_est_bounds l u s) = data s"
  "meas_from_data (with_p_est_bounds l u s) = meas_from_data s"
  "flag_set_y_fun (with_p_est_bounds l u s) = flag_set_y_fun s"
  "flag_set_objective (with_p_est_bounds l u s) = flag_set_objective s"
  "flag_set_tvp_fun (with_p_est_bounds l u s) = flag_set_tvp_fun s"
  "flag_set_p_fun (with_p_est_bounds l u s) = flag_set_p_fun s"
  "flag_setup (with_p_est_bounds l u s) = flag_setup s"
  "x_lb (with_p_est_bounds l u s) = x_lb s" "x_ub (with_p_est_bounds l u s) = x_ub s"
  "u_lb (with_p_est_bounds l u s) = u_lb s" "u_ub (with_p_est_bounds l u s) = u_ub s"
  "z_lb (with_p_est_bounds l u s) = z_lb s" "z_ub (with_p_est_bounds l u s) = z_ub s"
  by (simp_all add: with_p_est_bounds_def)

lemma wpb_upd:
  "(with_p_est_bounds l u s)\<lparr>tvp_fun := a, flag_set_tvp_fun := b\<rparr> =
     with_p_est_bounds l u (s\<lparr>tvp_fun := a, flag_set_tvp_fun := b\<rparr>)"
  "(with_p_est_bounds l u s)\<lparr>p_fun := a', flag_set_p_fun := b\<rparr> =
     with_p_est_bounds l u (s\<lparr>p_fun := a', flag_set_p_fun := b\<rparr>)"
  "(with_p_est_bounds l u s)\<lparr>y_fun := a'', flag_set_y_fun := b\<rparr> =
     with_p_est_bounds l u (s\<lparr>y_fun := a'', flag_set_y_fun := b\<rparr>)"
  by (simp_all add: with_p_est_bounds_def)

lemma get_templates_p_est_bounds:
  "get_tvp_template (with_p_est_bounds l u s) = get_tvp_template s"
  "get_p_template (with_p_est_bounds l u s) = get_p_template s"
  "get_y_template (with_p_est_bounds l u s) = get_y_template s"
  by (simp_all add: get_tvp_template_def get_p_template_def get_y_template_def wpb_sel
        split: option.splits)

lemma set_tvp_fun_p_est_bounds:
  "set_tvp_fun (with_p_est_bounds l u s) f =
     (fst (set_tvp_fun s f), with_p_est_bounds l u (snd (set_tvp_fun s f)))"
  by (simp add: set_tvp_fun_def get_templates_p_est_bounds wpb_upd wpb_sel split: sum.splits)

lemma set_p_fun_p_est_bounds:
  "set_p_fun (with_p_est_bounds l u s) f =
     (fst (set_p_fun s f), with_p_est_bounds l u (snd (set_p_fun s f)))"
  by (simp add: set_p_fun_def get_templates_p_est_bounds wpb_upd)

lemma call_y_fun_p_est_bounds:
  "call_y_fun (with_p_est_bounds l u s) yf t = call_y_fun s yf t"
  by (cases yf) (simp_all add: wpb_sel split: option.splits)

lemma set_y_fun_p_est_bounds:
  "set_y_fun (with_p_est_bounds l u s) yf =
     (fst (set_y_fun s yf), with_p_est_bounds l u (snd (set_y_fun s yf)))"
  by (simp add: set_y_fun_def call_y_fun_p_est_bounds get_templates_p_est_bounds wpb_upd
           split: sum.splits prod.splits)

lemma inject_tvp_fun_p_est_bounds:
  "inject_tvp_fun (with_p_est_bounds l u s) =
     (fst (inject_tvp_fun s), with_p_est_bounds l u (snd (inject_tvp_fun s)))"
  by (simp add: inject_tvp_fun_def set_tvp_fun_p_est_bounds get_templates_p_est_bounds wpb_sel
           split: sum.splits)

lemma inject_p_fun_p_est_bounds:
  "inject_p_fun (with_p_est_bounds l u s) =
     (fst (inject_p_fun s), with_p_est_bounds l u (snd (inject_p_fun s)))"
  by (simp add: inject_p_fun_def set_p_fun_p_est_bounds get_templates_p_est_bounds wpb_sel)

lemma check_y_fun_p_est_bounds:
  "check_y_fun (with_p_est_bounds l u s) =
     (fst (check_y_fun s), with_p_est_bounds l u (snd (check_y_fun s)))"
  by (simp add: check_y_fun_def set_y_fun_p_est_bounds get_templates_p_est_bounds wpb_sel
           split: sum.splits)

lemma check_validity_p_est_bounds:
  "fst (check_validity (with_p_est_bounds l u s)) = fst (check_validity s)"
proof -
  obtain r1 s1 where i1: "inject_tvp_fun s = (r1, s1)" by (cases "inject_tvp_fun s")
  obtain r2 s2 where i2: "inject_p_fun s1 = (r2, s2)" by (cases "inject_p_fun s1")
  show ?thesis
    unfolding check_validity_def wpb_sel inject_tvp_fun_p_est_bounds
    using i1 i2
    by (simp add: inject_p_fun_p_est_bounds check_y_fun_p_est_bounds
             split: option.splits sum.splits del: check_bounds.simps)
qed

lemma not_violated_bounds_le:
  assumes "nan_free lb" and "nan_free ub"
  shows "(\<not> violated lb ub) = bounds_le lb ub"
proof -
  have nn: "cat lb ! i \<noteq> NaN" "cat ub ! i \<noteq> NaN"
    if "i < length (cat lb)" "i < length (cat ub)" for i
    using assms that by (auto simp: nan_free_def list_all_iff)
  have "bounds_le lb ub =
        (\<forall>i. i < length (cat lb) \<and> i < length (cat ub) \<longrightarrow> fle (cat lb ! i) (cat ub ! i))"
    by (auto simp: bounds_le_def list_all_iff set_zip)
  also have "\<dots> = (\<forall>i. i < length (cat lb) \<and> i < length (cat ub) \<longrightarrow>
                        \<not> fgt (cat lb ! i) (cat ub ! i))"
    using nn by (auto simp: fgt_fle)
  also have "\<dots> = (\<not> violated lb ub)" by (auto simp: violated_iff)
  finally show ?thesis by simp
qed

lemma ds_labels_fold_ds_set:
  "ds_labels (fold (\<lambda>i t. ds_set t (f i) (g i)) ks t) = ds_labels t"
  by (induction ks arbitrary: t) (simp_all add: ds_set_def)

lemma ds_labels_default_y_fun: "ds_labels (default_y_fun t ys N) = ds_labels t"
  by (simp add: default_y_fun_def Let_def ds_labels_fold_ds_set)

lemma check_y_fun_default:
  assumes "\<not> flag_set_y_fun s" and "meas_from_data s" and "n_horizon s = Some N"
  shows "fst (check_y_fun s) = Inr ()"
  using assms
  by (simp add: check_y_fun_def get_y_template_def set_y_fun_def Let_def
        ds_labels_default_y_fun)

lemma stages_keep:
  "n_horizon (snd (inject_tvp_fun s)) = n_horizon s"
  "meas_from_data (snd (inject_tvp_fun s)) = meas_from_data s"
  "obj_fun (snd (inject_tvp_fun s)) = obj_fun s"
  "arrival_cost_fun (snd (inject_tvp_fun s)) = arrival_cost_fun s"
  "nl_cons_lb (snd (inject_tvp_fun s)) = nl_cons_lb s"
  "nl_cons_ub (snd (inject_tvp_fun s)) = nl_cons_ub s"
  "n_horizon (snd (inject_p_fun s)) = n_horizon s"
  "meas_from_data (snd (inject_p_fun s)) = meas_from_data s"
  "obj_fun (snd (inject_p_fun s)) = obj_fun s"
  "arrival_cost_fun (snd (inject_p_fun s)) = arrival_cost_fun s"
  "nl_cons_lb (snd (inject_p_fun s)) = nl_cons_lb s"
  "nl_cons_ub (snd (inject_p_fun s)) = nl_cons_ub s"
  "n_horizon (snd (check_y_fun s)) = n_horizon s"
  "obj_fun (snd (check_y_fun s)) = obj_fun s"
  "arrival_cost_fun (snd (check_y_fun s)) = arrival_cost_fun s"
  "nl_cons_lb (snd (check_y_fun s)) = nl_cons_lb s"
  "nl_cons_ub (snd (check_y_fun s)) = nl_cons_ub s"
  by (simp_all add: inject_tvp_fun_def inject_p_fun_def check_y_fun_def set_tvp_fun_def
        set_p_fun_def set_y_fun_def split: sum.splits prod.splits)

lemma inject_tvp_fun_succeeds:
  "n_horizon s = Some N \<Longrightarrow> \<not> flag_setup s \<Longrightarrow> fst (inject_tvp_fun s) = Inr ()"
  by (simp add: inject_tvp_fun_def get_tvp_template_def set_tvp_fun_def)

lemma inject_p_fun_succeeds: "fst (inject_p_fun s) = Inr ()"
  by (simp add: inject_p_fun_def set_p_fun_def)

lemma check_validity_succeeds:
  assumes "flag_set_objective s"
      and "flag_set_tvp_fun s \<or> size_st (m_tvp (model s)) = 0"
      and "flag_set_p_fun s \<or> size_st (p_set s) = 0"
      and "n_horizon s = Some N"
      and "\<not> flag_setup s" and "\<not> flag_set_y_fun s" and "meas_from_data s"
      and "\<not> violated (x_lb s) (x_ub s)" and "\<not> violated (u_lb s) (u_ub s)"
      and "\<not> violated (z_lb s) (z_ub s)"
  shows "fst (check_validity s) = Inr ()"
    and "n_horizon (snd (check_validity s)) = n_horizon s"
    and "obj_fun (snd (check_validity s)) = obj_fun s"
    and "arrival_cost_fun (snd (check_validity s)) = arrival_cost_fun s"
    and "nl_cons_lb (snd (check_validity s)) = nl_cons_lb s"
    and "nl_cons_ub (snd (check_validity s)) = nl_cons_ub s"
proof -
  obtain r1 s1 where i1: "inject_tvp_fun s = (r1, s1)" by (cases "inject_tvp_fun s")
  obtain r2 s2 where i2: "inject_p_fun s1 = (r2, s2)" by (cases "inject_p_fun s1")
  have r1: "r1 = Inr ()" using inject_tvp_fun_succeeds [OF assms(4,5)] i1 by simp
  have r2: "r2 = Inr ()" using inject_p_fun_succeeds [of s1] i2 by simp
  have k1: "n_horizon s1 = n_horizon s" "meas_from_data s1 = meas_from_data s"
    "flag_set_y_fun s1 = flag_set_y_fun s" "obj_fun s1 = obj_fun s"
    "arrival_cost_fun s1 = arrival_cost_fun s" "nl_cons_lb s1 = nl_cons_lb s"
    "nl_cons_ub s1 = nl_cons_ub s"
    using stages_keep(1-6) [of s] inject_tvp_fun_keeps_y_flag [of s] i1 by simp_all
  have k2: "n_horizon s2 = n_horizon s" "meas_from_data s2 = meas_from_data s"
    "flag_set_y_fun s2 = flag_set_y_fun s" "obj_fun s2 = obj_fun s"
    "arrival_cost_fun s2 = arrival_cost_fun s" "nl_cons_lb s2 = nl_cons_lb s"
    "nl_cons_ub s2 = nl_cons_ub s"
    using stages_keep(7-12) [of s1] inject_p_fun_keeps_y_flag [of s1] i2 k1 by simp_all
  have cv: "check_validity s = check_y_fun s2"
    using assms(1-3,8-10) i1 i2 r1 r2
    by (auto simp: check_validity_def check_bounds_three simp del: check_bounds.simps)
  have "fst (check_y_fun s2) = Inr ()"
    by (rule check_y_fun_default) (simp_all add: k2 assms)
  then show "fst (check_validity s) = Inr ()" by (simp add: cv)
  show "n_horizon (snd (check_validity s)) = n_horizon s"
    "obj_fun (snd (check_validity s)) = obj_fun s"
    "arrival_cost_fun (snd (check_validity s)) = arrival_cost_fun s"
    "nl_cons_lb (snd (check_validity s)) = nl_cons_lb s"
    "nl_cons_ub (snd (check_validity s)) = nl_cons_ub s"
    unfolding cv using stages_keep(13-17) [of s2] k2 by simp_all
qed

lemma assembly_succeeds:
  assumes "disc s = Inr d" and "n_horizon s = Some N" and "arrival_cost_fun s = Some ac"
      and "obj_fun s = Some ob" and "nl_cons_lb s = Some nlb" and "nl_cons_ub s = Some nub"
  shows "fst (setup_mhe_optim_problem disc s) = Inr ()"
    and "opt_x_num (snd (setup_mhe_optim_problem disc s)) \<noteq> None"
  using assms
  by (simp_all add: setup_mhe_optim_problem_def Let_def py_dict_update_def)

lemma set_initial_guess_succeeds:
  "flag_setup s \<Longrightarrow> opt_x_num s = Some oxn \<Longrightarrow> fst (set_initial_guess s) = Inr ()"
  by (simp add: set_initial_guess_def)

text \<open>
  The part of \<open>setup\<close> before the validity check, for an estimator whose horizon and
  step size are set and whose nonlinear constraints have distinct names.
\<close>

lemma mhe_setup_unfold:
  assumes "n_horizon s = Some N" and "t_step s = Some dt"
      and "distinct (map expr_name (nl_cons_list s))"
  shows "\<exists>s2. mhe_setup disc s =
     (case check_validity s2 of
        (Inl e, s3) \<Rightarrow> (Inl e, s3)
      | (Inr u, s3) \<Rightarrow>
          (case setup_mhe_optim_problem disc s3 of
             (Inl e, s4) \<Rightarrow> (Inl e, s4)
           | (Inr u, s4) \<Rightarrow> set_initial_guess (s4\<lparr>flag_setup := True\<rparr>))) \<and>
     flag_set_objective s2 = flag_set_objective s \<and> flag_set_tvp_fun s2 = flag_set_tvp_fun s \<and>
     flag_set_p_fun s2 = flag_set_p_fun s \<and> flag_set_y_fun s2 = flag_set_y_fun s \<and>
     flag_setup s2 = flag_setup s \<and> meas_from_data s2 = meas_from_data s \<and>
     model s2 = model s \<and> p_set s2 = p_set s \<and> n_horizon s2 = n_horizon s \<and>
     x_lb s2 = x_lb s \<and> x_ub s2 = x_ub s \<and> u_lb s2 = u_lb s \<and> u_ub s2 = u_ub s \<and>
     z_lb s2 = z_lb s \<and> z_ub s2 = z_ub s \<and>
     obj_fun s2 = obj_fun s \<and> arrival_cost_fun s2 = arrival_cost_fun s \<and>
     nl_cons_lb s2 \<noteq> None \<and> nl_cons_ub s2 \<noteq> None"
proof -
  have k: "keys (map (\<lambda>e. entry_shape (expr_name e) (expr_size e)) (nl_cons_list s)) =
           map expr_name (nl_cons_list s)"
    by (simp add: keys_def entry_shape_def comp_def)
  let ?nlc = "map (\<lambda>e. entry_shape (expr_name e) (expr_size e)) (nl_cons_list s)"
  let ?s2 = "s\<lparr>nl_cons := Some ?nlc,
       nl_cons_lb := Some (fold (\<lambda>e d. ds_set d [K (expr_name e)] (nl_lb e)) (nl_cons_list s)
                 (struct_call ?nlc NInf)),
       nl_cons_ub := Some (struct_call ?nlc (Fin 0)),
       data := set_meta (data s)
                     \<lparr>meta_n_horizon = N, meta_t_step = dt,
                      meta_meas_from_data = meas_from_data s,
                      meta_state_discretization = state_discretization s,
                      meta_collocation_type = collocation_type s,
                      meta_collocation_deg = collocation_deg s,
                      meta_collocation_ni = collocation_ni s,
                      meta_store_full_solution = store_full_solution s,
                      meta_store_lagr_multiplier = store_lagr_multiplier s,
                      meta_store_solver_stats = store_solver_stats s,
                      meta_nlpsol_opts = nlpsol_opts s\<rparr>\<rparr>"
  show ?thesis
    using assms
    apply (intro exI [of _ ?s2])
    apply (simp add: mhe_setup_def struct_SX_def k Let_def)
    done
qed

text \<open>
  C4, as stated, fails in three ways.  The bounds of the estimated parameters are not
  checked: with lower bound 1 and upper bound 0 for every estimated parameter \<open>setup\<close>
  succeeds.  The comparison that decides is lower \<open>>\<close> upper, which is false for NaN:
  with the lower bound of the state NaN, lower \<open>\<le>\<close> upper does not hold and \<open>setup\<close>
  succeeds.  The check raises at the first category with a violation: with the bounds
  of the state and of the input both inconsistent the message names the component of
  the state only.
\<close>

theorem estimated_parameter_bounds_unchecked:
  "violated (struct_call (p_est example_mhe) (Fin 1)) (struct_call (p_est example_mhe) (Fin 0)) \<and>
   fst (mhe_setup example_disc
          (example_mhe\<lparr>p_est_lb := struct_call (p_est example_mhe) (Fin 1),
                        p_est_ub := struct_call (p_est example_mhe) (Fin 0)\<rparr>)) = Inr () \<and>
   cat (x_lb example_nan_x) = [NaN] \<and>
   \<not> bounds_le (x_lb example_nan_x) (x_ub example_nan_x) \<and>
   fst (mhe_setup example_disc example_nan_x) = Inr () \<and>
   violated (x_lb example_bad_xu) (x_ub example_bad_xu) \<and>
   violated (u_lb example_bad_xu) (u_ub example_bad_xu) \<and>
   offending (u_lb example_bad_xu) (u_ub example_bad_xu) = [[K ''u'', I 0]] \<and>
   fst (mhe_setup example_disc example_bad_xu)
     = Inl (Exception (BoundsInconsistent [[K ''x'', I 0]]))"
  by code_simp

text \<open>
  C4, amended.  Let the objective be registered, the callbacks for time-varying and
  fixed parameters be registered where the model needs them, horizon and step size be
  set and the nonlinear constraints have distinct names.  A component of a bound pair
  is offending when lower \<open>>\<close> upper holds.

  If some component of the state, input or algebraic bounds is offending, \<open>setup\<close> fails
  with the exception for inconsistent bounds, whose message lists every offending
  component of the first category (state, input, algebraic, in this order) that has
  one; a single component suffices.  The validity check raises that exception exactly
  when such a component exists.

  If moreover \<open>setup\<close> has not run yet, the objective is compiled, the default
  measurement callback is requested and none is registered, and the discretization
  does not fail, then \<open>setup\<close> succeeds if and only if no component of these three
  categories is offending; when no bound is NaN, if and only if lower \<open>\<le>\<close> upper holds
  in every component of the three categories.  The bounds of the estimated parameters
  are not checked: they change neither the outcome of the validity check nor whether
  \<open>setup\<close> succeeds.
\<close>

theorem bounds_checked_for_state_input_algebraic:
  assumes "flag_set_objective s"
      and "flag_set_tvp_fun s \<or> size_st (m_tvp (model s)) = 0"
      and "flag_set_p_fun s \<or> size_st (p_set s) = 0"
      and "n_horizon s = Some N" and "t_step s = Some dt"
      and "distinct (map expr_name (nl_cons_list s))"
  shows "(violated (x_lb s) (x_ub s) \<or> violated (u_lb s) (u_ub s) \<or> violated (z_lb s) (z_ub s) \<longrightarrow>
            fst (mhe_setup disc s) =
              Inl (Exception (BoundsInconsistent
                (if violated (x_lb s) (x_ub s) then offending (x_lb s) (x_ub s)
                 else if violated (u_lb s) (u_ub s) then offending (u_lb s) (u_ub s)
                 else offending (z_lb s) (z_ub s))))) \<and>
         ((\<exists>ls. fst (check_validity s) = Inl (Exception (BoundsInconsistent ls))) =
            (violated (x_lb s) (x_ub s) \<or> violated (u_lb s) (u_ub s) \<or> violated (z_lb s) (z_ub s))) \<and>
         (fst (mhe_setup disc s) = Inr () \<longrightarrow>
            \<not> violated (x_lb s) (x_ub s) \<and> \<not> violated (u_lb s) (u_ub s) \<and>
            \<not> violated (z_lb s) (z_ub s)) \<and>
         (default_measurement_requested s \<and> (\<forall>s'. \<not> isl (disc s')) \<longrightarrow>
            (fst (mhe_setup disc s) = Inr ()) =
            (\<not> violated (x_lb s) (x_ub s) \<and> \<not> violated (u_lb s) (u_ub s) \<and>
             \<not> violated (z_lb s) (z_ub s))) \<and>
         (default_measurement_requested s \<and> (\<forall>s'. \<not> isl (disc s')) \<and>
          nan_free (x_lb s) \<and> nan_free (x_ub s) \<and> nan_free (u_lb s) \<and> nan_free (u_ub s) \<and>
          nan_free (z_lb s) \<and> nan_free (z_ub s) \<longrightarrow>
            (fst (mhe_setup disc s) = Inr ()) =
            (bounds_le (x_lb s) (x_ub s) \<and> bounds_le (u_lb s) (u_ub s) \<and>
             bounds_le (z_lb s) (z_ub s))) \<and>
         (\<forall>l u. fst (check_validity (s\<lparr>p_est_lb := l, p_est_ub := u\<rparr>)) = fst (check_validity s)) \<and>
         (default_measurement_requested s \<and> (\<forall>s'. \<not> isl (disc s')) \<longrightarrow>
            (\<forall>l u. (fst (mhe_setup disc (s\<lparr>p_est_lb := l, p_est_ub := u\<rparr>)) = Inr ()) =
                   (fst (mhe_setup disc s) = Inr ())))"
proof -
  let ?V = "violated (x_lb s) (x_ub s) \<or> violated (u_lb s) (u_ub s) \<or> violated (z_lb s) (z_ub s)"
  let ?ls = "if violated (x_lb s) (x_ub s) then offending (x_lb s) (x_ub s)
             else if violated (u_lb s) (u_ub s) then offending (u_lb s) (u_ub s)
             else offending (z_lb s) (z_ub s)"
  have fail: "fst (mhe_setup disc t) = Inl (Exception (BoundsInconsistent
                (if violated (x_lb t) (x_ub t) then offending (x_lb t) (x_ub t)
                 else if violated (u_lb t) (u_ub t) then offending (u_lb t) (u_ub t)
                 else offending (z_lb t) (z_ub t))))"
    if pre: "flag_set_objective t" "flag_set_tvp_fun t \<or> size_st (m_tvp (model t)) = 0"
       "flag_set_p_fun t \<or> size_st (p_set t) = 0" "n_horizon t = Some N" "t_step t = Some dt"
       "distinct (map expr_name (nl_cons_list t))"
       and v: "violated (x_lb t) (x_ub t) \<or> violated (u_lb t) (u_ub t) \<or> violated (z_lb t) (z_ub t)"
    for t
  proof -
    from mhe_setup_unfold [OF pre(4,5,6), of disc] obtain s2 where
      eq: "mhe_setup disc t =
       (case check_validity s2 of
          (Inl e, s3) \<Rightarrow> (Inl e, s3)
        | (Inr u, s3) \<Rightarrow>
            (case setup_mhe_optim_problem disc s3 of
               (Inl e, s4) \<Rightarrow> (Inl e, s4)
             | (Inr u, s4) \<Rightarrow> set_initial_guess (s4\<lparr>flag_setup := True\<rparr>)))"
      and k: "flag_set_objective s2 = flag_set_objective t"
        "flag_set_tvp_fun s2 = flag_set_tvp_fun t" "flag_set_p_fun s2 = flag_set_p_fun t"
        "model s2 = model t" "p_set s2 = p_set t"
        "x_lb s2 = x_lb t" "x_ub s2 = x_ub t" "u_lb s2 = u_lb t" "u_ub s2 = u_ub t"
        "z_lb s2 = z_lb t" "z_ub s2 = z_ub t"
      by blast
    have pre2: "flag_set_objective s2" "flag_set_tvp_fun s2 \<or> size_st (m_tvp (model s2)) = 0"
      "flag_set_p_fun s2 \<or> size_st (p_set s2) = 0"
      using pre(1-3) by (simp_all add: k)
    show ?thesis
      using check_validity_bounds(2) [OF pre2] v unfolding k eq by simp
  qed
  have succeed: "fst (mhe_setup disc t) = Inr ()"
    if pre: "flag_set_objective t" "flag_set_tvp_fun t \<or> size_st (m_tvp (model t)) = 0"
       "flag_set_p_fun t \<or> size_st (p_set t) = 0" "n_horizon t = Some N" "t_step t = Some dt"
       "distinct (map expr_name (nl_cons_list t))"
       and rdy: "default_measurement_requested t" "\<forall>s'. \<not> isl (disc s')"
       and nv: "\<not> violated (x_lb t) (x_ub t)" "\<not> violated (u_lb t) (u_ub t)"
               "\<not> violated (z_lb t) (z_ub t)"
    for t
  proof -
    from mhe_setup_unfold [OF pre(4,5,6), of disc] obtain s2 where
      eq: "mhe_setup disc t =
       (case check_validity s2 of
          (Inl e, s3) \<Rightarrow> (Inl e, s3)
        | (Inr u, s3) \<Rightarrow>
            (case setup_mhe_optim_problem disc s3 of
               (Inl e, s4) \<Rightarrow> (Inl e, s4)
             | (Inr u, s4) \<Rightarrow> set_initial_guess (s4\<lparr>flag_setup := True\<rparr>)))"
      and k: "flag_set_objective s2 = flag_set_objective t"
        "flag_set_tvp_fun s2 = flag_set_tvp_fun t" "flag_set_p_fun s2 = flag_set_p_fun t"
        "flag_set_y_fun s2 = flag_set_y_fun t" "flag_setup s2 = flag_setup t"
        "meas_from_data s2 = meas_from_data t"
        "model s2 = model t" "p_set s2 = p_set t" "n_horizon s2 = n_horizon t"
        "x_lb s2 = x_lb t" "x_ub s2 = x_ub t" "u_lb s2 = u_lb t" "u_ub s2 = u_ub t"
        "z_lb s2 = z_lb t" "z_ub s2 = z_ub t"
        "obj_fun s2 = obj_fun t" "arrival_cost_fun s2 = arrival_cost_fun t"
      and nl: "nl_cons_lb s2 \<noteq> None" "nl_cons_ub s2 \<noteq> None"
      by blast
    from rdy(1) have r: "\<not> flag_setup t" "\<not> flag_set_y_fun t" "meas_from_data t"
      "obj_fun t \<noteq> None" "arrival_cost_fun t \<noteq> None"
      by (simp_all add: default_measurement_requested_def)
    have h: "flag_set_objective s2" "flag_set_tvp_fun s2 \<or> size_st (m_tvp (model s2)) = 0"
      "flag_set_p_fun s2 \<or> size_st (p_set s2) = 0" "n_horizon s2 = Some N"
      "\<not> flag_setup s2" "\<not> flag_set_y_fun s2" "meas_from_data s2"
      "\<not> violated (x_lb s2) (x_ub s2)" "\<not> violated (u_lb s2) (u_ub s2)"
      "\<not> violated (z_lb s2) (z_ub s2)"
      using pre(1-4) r nv by (simp_all add: k)
    note cv = check_validity_succeeds [OF h]
    obtain s3 where s3: "check_validity s2 = (Inr (), s3)"
      using cv(1) by (cases "check_validity s2") auto
    then have s3k: "n_horizon s3 = Some N" "obj_fun s3 \<noteq> None" "arrival_cost_fun s3 \<noteq> None"
      "nl_cons_lb s3 \<noteq> None" "nl_cons_ub s3 \<noteq> None"
      using cv(2-6) h(4) r(4,5) nl by (simp_all add: k)
    from rdy(2) have "\<not> isl (disc s3)" by blast
    then obtain d where d: "disc s3 = Inr d" by (cases "disc s3") auto
    from s3k obtain ac ob nlb nub where o: "arrival_cost_fun s3 = Some ac" "obj_fun s3 = Some ob"
      "nl_cons_lb s3 = Some nlb" "nl_cons_ub s3 = Some nub"
      by auto
    note asm = assembly_succeeds [of disc s3 d N ac ob nlb nub, OF d s3k(1) o]
    obtain s4 where s4: "setup_mhe_optim_problem disc s3 = (Inr (), s4)"
      using asm(1) by (cases "setup_mhe_optim_problem disc s3") auto
    then obtain oxn where oxn: "opt_x_num s4 = Some oxn" using asm(2) by auto
    have "fst (set_initial_guess (s4\<lparr>flag_setup := True\<rparr>)) = Inr ()"
      by (rule set_initial_guess_succeeds [of _ oxn]) (simp_all add: oxn)
    then show ?thesis unfolding eq s3 by (simp add: s4)
  qed
  have A: "?V \<longrightarrow> fst (mhe_setup disc s) = Inl (Exception (BoundsInconsistent ?ls))"
    using fail [OF assms] by blast
  have B: "(\<exists>ls. fst (check_validity s) = Inl (Exception (BoundsInconsistent ls))) = ?V"
    by (rule check_validity_bounds(1) [OF assms(1-3)])
  have C0: "fst (mhe_setup disc s) = Inr () \<longrightarrow> \<not> ?V" using A by auto
  have C: "(fst (mhe_setup disc s) = Inr ()) = (\<not> ?V)"
    if "default_measurement_requested s" "\<forall>s'. \<not> isl (disc s')"
    using succeed [OF assms that] A by auto
  have D: "(\<not> ?V) = (bounds_le (x_lb s) (x_ub s) \<and> bounds_le (u_lb s) (u_ub s) \<and>
             bounds_le (z_lb s) (z_ub s))"
    if "nan_free (x_lb s)" "nan_free (x_ub s)" "nan_free (u_lb s)" "nan_free (u_ub s)"
       "nan_free (z_lb s)" "nan_free (z_ub s)"
    using that by (simp add: not_violated_bounds_le)
  have E: "fst (check_validity (s\<lparr>p_est_lb := l, p_est_ub := u\<rparr>)) = fst (check_validity s)"
    for l u
    using check_validity_p_est_bounds [of l u s] by (simp add: with_p_est_bounds_def)
  have F: "(fst (mhe_setup disc (s\<lparr>p_est_lb := l, p_est_ub := u\<rparr>)) = Inr ()) =
           (fst (mhe_setup disc s) = Inr ())"
    if rdy: "default_measurement_requested s" "\<forall>s'. \<not> isl (disc s')" for l u
  proof -
    let ?t = "s\<lparr>p_est_lb := l, p_est_ub := u\<rparr>"
    have pt: "flag_set_objective ?t" "flag_set_tvp_fun ?t \<or> size_st (m_tvp (model ?t)) = 0"
      "flag_set_p_fun ?t \<or> size_st (p_set ?t) = 0" "n_horizon ?t = Some N" "t_step ?t = Some dt"
      "distinct (map expr_name (nl_cons_list ?t))"
      using assms by simp_all
    have rt: "default_measurement_requested ?t"
      using rdy(1) by (simp add: default_measurement_requested_def)
    have "(fst (mhe_setup disc ?t) = Inr ()) = (\<not> ?V)"
      using succeed [OF pt rt rdy(2)] fail [OF pt] by auto
    with C [OF rdy] show ?thesis by simp
  qed
  from A B C0 C D E F show ?thesis by (intro conjI impI allI) blast+
qed

theorem bounds_checked_for_state_input_algebraic_witness:
  "flag_set_objective example_bad_x \<and>
   (flag_set_tvp_fun example_bad_x \<or> size_st (m_tvp (model example_bad_x)) = 0) \<and>
   (flag_set_p_fun example_bad_x \<or> size_st (p_set example_bad_x) = 0) \<and>
   n_horizon example_bad_x = Some 1 \<and> t_step example_bad_x = Some (Fin 1) \<and>
   distinct (map expr_name (nl_cons_list example_bad_x)) \<and>
   violated (x_lb example_bad_x) (x_ub example_bad_x) \<and>
   fst (mhe_setup example_disc example_bad_x)
     = Inl (Exception (BoundsInconsistent [[K ''x'', I 0]])) \<and>
   flag_set_objective example_mhe \<and>
   (flag_set_tvp_fun example_mhe \<or> size_st (m_tvp (model example_mhe)) = 0) \<and>
   (flag_set_p_fun example_mhe \<or> size_st (p_set example_mhe) = 0) \<and>
   n_horizon example_mhe = Some 1 \<and> t_step example_mhe = Some (Fin 1) \<and>
   distinct (map expr_name (nl_cons_list example_mhe)) \<and>
   default_measurement_requested example_mhe \<and> (\<forall>s'. \<not> isl (example_disc s')) \<and>
   nan_free (x_lb example_mhe) \<and> nan_free (x_ub example_mhe) \<and>
   nan_free (u_lb example_mhe) \<and> nan_free (u_ub example_mhe) \<and>
   nan_free (z_lb example_mhe) \<and> nan_free (z_ub example_mhe) \<and>
   bounds_le (x_lb example_mhe) (x_ub example_mhe) \<and>
   bounds_le (u_lb example_mhe) (u_ub example_mhe) \<and>
   bounds_le (z_lb example_mhe) (z_ub example_mhe) \<and>
   fst (mhe_setup example_disc example_mhe) = Inr ()"
proof -
  have h1: "flag_set_objective example_mhe" by code_simp
  have h2: "flag_set_tvp_fun example_mhe \<or> size_st (m_tvp (model example_mhe)) = 0"
    by code_simp
  have h3: "flag_set_p_fun example_mhe \<or> size_st (p_set example_mhe) = 0" by code_simp
  have h4: "n_horizon example_mhe = Some 1" by code_simp
  have h5: "t_step example_mhe = Some (Fin 1)" by code_simp
  have h6: "distinct (map expr_name (nl_cons_list example_mhe))" by code_simp
  have b1: "flag_set_objective example_bad_x" by code_simp
  have b2: "flag_set_tvp_fun example_bad_x \<or> size_st (m_tvp (model example_bad_x)) = 0"
    by code_simp
  have b3: "flag_set_p_fun example_bad_x \<or> size_st (p_set example_bad_x) = 0" by code_simp
  have b4: "n_horizon example_bad_x = Some 1" by code_simp
  have b5: "t_step example_bad_x = Some (Fin 1)" by code_simp
  have b6: "distinct (map expr_name (nl_cons_list example_bad_x))" by code_simp
  have v: "violated (x_lb example_bad_x) (x_ub example_bad_x)" by code_simp
  have off: "offending (x_lb example_bad_x) (x_ub example_bad_x) = [[K ''x'', I 0]]"
    by code_simp
  have rdy: "default_measurement_requested example_mhe" by code_simp
  have dsc: "\<forall>s'. \<not> isl (example_disc s')" by (simp add: example_disc_def)
  have nf: "nan_free (x_lb example_mhe)" "nan_free (x_ub example_mhe)"
    "nan_free (u_lb example_mhe)" "nan_free (u_ub example_mhe)"
    "nan_free (z_lb example_mhe)" "nan_free (z_ub example_mhe)"
    by code_simp+
  have le: "bounds_le (x_lb example_mhe) (x_ub example_mhe)"
    "bounds_le (u_lb example_mhe) (u_ub example_mhe)"
    "bounds_le (z_lb example_mhe) (z_ub example_mhe)"
    by code_simp+
  note bad = bounds_checked_for_state_input_algebraic [OF b1 b2 b3 b4 b5 b6, of example_disc]
  note good = bounds_checked_for_state_input_algebraic [OF h1 h2 h3 h4 h5 h6, of example_disc]
  from bad v have "fst (mhe_setup example_disc example_bad_x) =
      Inl (Exception (BoundsInconsistent (offending (x_lb example_bad_x) (x_ub example_bad_x))))"
    by simp
  then have r1: "fst (mhe_setup example_disc example_bad_x) =
      Inl (Exception (BoundsInconsistent [[K ''x'', I 0]]))"
    unfolding off .
  from good rdy dsc nf le have r2: "fst (mhe_setup example_disc example_mhe) = Inr ()"
    by blast
  from h1 h2 h3 h4 h5 h6 b1 b2 b3 b4 b5 b6 v rdy dsc nf le r1 r2 show ?thesis by blast
qed

section \<open>Properties of the registration after setup\<close>

lemma set_initial_guess_flag:
  "set_initial_guess s = (Inr (), s') \<Longrightarrow> flag_setup s'"
  by (auto simp: set_initial_guess_def split: if_splits option.splits)

lemma mhe_setup_sets_flag:
  assumes "mhe_setup disc s = (Inr (), s')"
  shows "flag_setup s'"
  using assms
  by (auto simp: mhe_setup_def Let_def split: option.splits prod.splits sum.splits
           dest: set_initial_guess_flag)

text \<open>
  C5, as stated, fails: \<open>set_p_fun\<close> and \<open>set_y_fun\<close> have no guard on the setup flag.
  In the instance both accept a callback after \<open>setup\<close> has completed.
\<close>

theorem callback_registered_after_setup:
  "fst (mhe_setup example_disc example_mhe) = Inr () \<and>
   flag_setup example_assembled \<and>
   fst (set_p_fun example_assembled example_p_fun) = Inr () \<and>
   fst (set_y_fun example_assembled (UserY example_y_fun)) = Inr ()"
  by code_simp

text \<open>
  C5, amended.  After \<open>setup\<close> has completed the setup flag is raised and every call
  of \<open>set_objective\<close> fails with an assertion error and leaves the estimator as it is.
  \<open>set_p_fun\<close> and \<open>set_y_fun\<close> are not guarded: a callback whose output has the labels
  of the template is stored and its flag raised, any other callback is refused with an
  assertion error and nothing changes; in either case the assembled problem is
  untouched.
\<close>

theorem registration_after_setup:
  assumes "mhe_setup disc s = (Inr (), s')"
  shows "flag_setup s' \<and>
     (\<forall>ob ac. \<exists>m. set_objective s' ob ac = (Inl (AssertionError m), s')) \<and>
     (\<forall>f. ds_labels (f (Fin 0)) = ds_labels (get_p_template s') \<longrightarrow>
          set_p_fun s' f = (Inr (), s'\<lparr>p_fun := Some f, flag_set_p_fun := True\<rparr>)) \<and>
     (\<forall>f. ds_labels (f (Fin 0)) \<noteq> ds_labels (get_p_template s') \<longrightarrow>
          set_p_fun s' f = (Inl (AssertionError PFunOutput), s')) \<and>
     (\<forall>f tmpl. get_y_template s' = Inr tmpl \<and> ds_labels (f (Fin 0)) = ds_labels tmpl \<longrightarrow>
          set_y_fun s' (UserY f) =
            (Inr (), s'\<lparr>y_fun := Some (UserY f), flag_set_y_fun := True\<rparr>)) \<and>
     (\<forall>f tmpl. get_y_template s' = Inr tmpl \<and> ds_labels (f (Fin 0)) \<noteq> ds_labels tmpl \<longrightarrow>
          set_y_fun s' (UserY f) = (Inl (AssertionError YFunOutput), s')) \<and>
     (\<forall>f. problem (snd (set_p_fun s' f)) = problem s') \<and>
     (\<forall>yf. problem (snd (set_y_fun s' yf)) = problem s')"
proof -
  have f: "flag_setup s'" using assms by (rule mhe_setup_sets_flag)
  have o: "\<exists>m. set_objective s' ob ac = (Inl (AssertionError m), s')" for ob ac
    using f by (simp add: set_objective_def)
  have p: "problem (snd (set_p_fun s' g)) = problem s'" for g
    by (simp add: set_p_fun_def)
  have y: "problem (snd (set_y_fun s' yf)) = problem s'" for yf
    by (simp add: set_y_fun_def split: sum.splits prod.splits)
  show ?thesis using f o p y
    by (auto simp: set_p_fun_def set_y_fun_def)
qed

theorem registration_after_setup_witness:
  "mhe_setup example_disc example_mhe = (Inr (), example_assembled) \<and>
   flag_setup example_assembled \<and>
   (\<exists>m. set_objective example_assembled example_cost example_cost
          = (Inl (AssertionError m), example_assembled)) \<and>
   ds_labels (example_p_fun (Fin 0)) = ds_labels (get_p_template example_assembled) \<and>
   set_p_fun example_assembled example_p_fun =
     (Inr (), example_assembled\<lparr>p_fun := Some example_p_fun, flag_set_p_fun := True\<rparr>) \<and>
   ds_labels (example_y_fun (Fin 0)) \<noteq> ds_labels (get_p_template example_assembled) \<and>
   set_p_fun example_assembled example_y_fun =
     (Inl (AssertionError PFunOutput), example_assembled) \<and>
   (\<exists>tmpl. get_y_template example_assembled = Inr tmpl \<and>
      ds_labels (example_y_fun (Fin 0)) = ds_labels tmpl) \<and>
   set_y_fun example_assembled (UserY example_y_fun) =
     (Inr (), example_assembled\<lparr>y_fun := Some (UserY example_y_fun), flag_set_y_fun := True\<rparr>)"
proof -
  have "fst (mhe_setup example_disc example_mhe) = Inr ()" by code_simp
  then have h: "mhe_setup example_disc example_mhe = (Inr (), example_assembled)"
    unfolding example_assembled_def by (metis prod.collapse)
  have l1: "ds_labels (example_p_fun (Fin 0)) = ds_labels (get_p_template example_assembled)"
    by code_simp
  have l2: "ds_labels (example_y_fun (Fin 0)) \<noteq> ds_labels (get_p_template example_assembled)"
    by code_simp
  have l3: "get_y_template example_assembled =
              Inr (struct_call [entry_repeat ''y_meas'' [1] (m_y example_model)] (Fin 0))"
    by code_simp
  have l4: "ds_labels (example_y_fun (Fin 0)) =
              ds_labels (struct_call [entry_repeat ''y_meas'' [1] (m_y example_model)] (Fin 0))"
    by code_simp
  from registration_after_setup [OF h] h l1 l2 l3 l4 show ?thesis by blast
qed

section \<open>Properties of the problem assembly\<close>

lemma length_repeat_labels:
  "length (repeat_labels ds ls) = prod_list ds * length ls"
proof (induction ds)
  case Nil then show ?case by simp
next
  case (Cons d ds)
  have "length (concat (map (\<lambda>i. map ((#) (I i)) (repeat_labels ds ls)) [0..<d]))
        = d * length (repeat_labels ds ls)"
    by (induction d) (simp_all add: length_concat)
  with Cons show ?case by simp
qed

lemma size_entry_repeat:
  "size_st [entry_repeat name ds sub] = prod_list ds * size_st sub"
  by (simp add: size_st_def labels_def entry_labels_def entry_repeat_def length_repeat_labels)

lemma size_st_Cons: "size_st (e # st) = size_st [e] + size_st st"
  by (simp add: size_st_def labels_def)

lemma size_opt_x_struct:
  "size_st (opt_x_struct s N c) =
     (N + 1) * (1 + c) * size_st (m_x (model s)) + N * (1 + c) * size_st (m_z (model s)) +
     N * size_st (m_u (model s)) + size_st (p_est s)"
  unfolding opt_x_struct_def
  by (subst size_st_Cons, subst size_st_Cons [of _ "[_, _]"], subst size_st_Cons [of _ "[_]"])
     (simp add: size_entry_repeat)

lemma horizon_loop_counts:
  "length (filter is_defect (a_cons (fold (horizon_step s d lb ub p) ks a)))
     = length (filter is_defect (a_cons a)) + length ks \<and>
   length (filter is_continuity (a_cons (fold (horizon_step s d lb ub p) ks a)))
     = length (filter is_continuity (a_cons a)) + length ks \<and>
   length (filter is_stage_cost (a_obj (fold (horizon_step s d lb ub p) ks a)))
     = length (filter is_stage_cost (a_obj a)) + length ks \<and>
   length (a_cons (fold (horizon_step s d lb ub p) ks a)) = length (a_cons a) + 3 * length ks \<and>
   length (a_obj (fold (horizon_step s d lb ub p) ks a)) = length (a_obj a) + length ks"
proof (induction ks arbitrary: a)
  case Nil then show ?case by simp
next
  case (Cons k ks)
  have step: "length (filter is_defect (a_cons (horizon_step s d lb ub p k a)))
         = Suc (length (filter is_defect (a_cons a)))"
       "length (filter is_continuity (a_cons (horizon_step s d lb ub p k a)))
         = Suc (length (filter is_continuity (a_cons a)))"
       "length (filter is_stage_cost (a_obj (horizon_step s d lb ub p k a)))
         = Suc (length (filter is_stage_cost (a_obj a)))"
       "length (a_cons (horizon_step s d lb ub p k a)) = length (a_cons a) + 3"
       "length (a_obj (horizon_step s d lb ub p k a)) = Suc (length (a_obj a))"
    by (simp_all add: horizon_step_def Let_def)
  show ?case using Cons [of "horizon_step s d lb ub p k a"] by (simp add: step)
qed

lemma horizon_loop_bounds:
  "a_cons_lb (fold (horizon_step s d lb ub p) ks a) =
     a_cons_lb a @ concat (replicate (length ks)
       [replicate (n_g d) (Fin 0), replicate (size_st (m_x (model s))) (Fin 0), cat lb]) \<and>
   a_cons_ub (fold (horizon_step s d lb ub p) ks a) =
     a_cons_ub a @ concat (replicate (length ks)
       [replicate (n_g d) (Fin 0), replicate (size_st (m_x (model s))) (Fin 0), cat ub]) \<and>
   map kind_of (a_cons (fold (horizon_step s d lb ub p) ks a)) =
     map kind_of (a_cons a) @
       concat (replicate (length ks) [DefectBlock, ContinuityBlock, PathBlock])"
proof (induction ks arbitrary: a)
  case Nil then show ?case by simp
next
  case (Cons k ks)
  have step: "a_cons_lb (horizon_step s d lb ub p k a) = a_cons_lb a @
       [replicate (n_g d) (Fin 0), replicate (size_st (m_x (model s))) (Fin 0), cat lb]"
     "a_cons_ub (horizon_step s d lb ub p k a) = a_cons_ub a @
       [replicate (n_g d) (Fin 0), replicate (size_st (m_x (model s))) (Fin 0), cat ub]"
     "map kind_of (a_cons (horizon_step s d lb ub p k a)) =
        map kind_of (a_cons a) @ [DefectBlock, ContinuityBlock, PathBlock]"
    by (simp_all add: horizon_step_def Let_def)
  show ?case using Cons [of "horizon_step s d lb ub p k a"] by (simp add: step)
qed

lemma concat_concat_replicate3:
  "concat (concat (replicate n [a, b, c])) = concat (replicate n (a @ b @ c))"
  by (induction n) simp_all

text \<open>
  C2, as stated, fails: the decision-variable vector also holds the algebraic
  variables.  In the instance (horizon 1, one collocation point, one state, one
  algebraic variable, one input, two estimated parameters) the assembled vector has 9
  components, while the formula of the claim gives 7.
\<close>

theorem decision_vector_has_algebraic_blocks:
  "fst (mhe_setup example_disc example_mhe) = Inr () \<and>
   n_horizon example_mhe = Some 1 \<and>
   example_disc example_mhe = Inr \<lparr>n_g = 2, n_total_coll_points = 1\<rparr> \<and>
   map_option n_opt_x (problem example_assembled) = Some 9 \<and>
   (1 + 1) * (1 + 1) * size_st (m_x (model example_mhe)) + 1 * size_st (m_u (model example_mhe))
     + size_st (p_est example_mhe) = 7"
  by code_simp

text \<open>
  C2, amended.  When the assembly succeeds with horizon \<open>N\<close> and \<open>c\<close> intermediate
  collocation points, the constraint list consists of \<open>N\<close> groups, each a defect block,
  a continuity block and a block of nonlinear path constraints, in this order: exactly
  \<open>N\<close> defect blocks and \<open>N\<close> continuity blocks, \<open>3 N\<close> blocks in all.  The lower and
  the upper bound vector of the constraints consist of \<open>N\<close> groups as well; in both of
  them the part of the defect block and the part of the continuity block are zero, so
  that these are equality constraints, and the part of the path constraints is their
  declared lower, respectively upper, bound.  The objective is the arrival cost plus
  exactly \<open>N\<close> stage costs.  The decision-variable structure consists of \<open>N + 1\<close> state
  blocks each replicated over \<open>1 + c\<close> points, \<open>N\<close> algebraic blocks each replicated
  over \<open>1 + c\<close> points, \<open>N\<close> input blocks and one block of estimated parameters, so that
  its size is \<open>(N + 1) (1 + c) n_x + N (1 + c) n_z + N n_u + n_p_est\<close>.
\<close>

theorem assembly_counts:
  assumes "setup_mhe_optim_problem disc s = (Inr (), s')"
      and "n_horizon s = Some N" and "disc s = Inr d"
  shows "\<exists>pr nlb nub. problem s' = Some pr \<and>
     nl_cons_lb s = Some nlb \<and> nl_cons_ub s = Some nub \<and>
     length (filter is_defect (cons pr)) = N \<and>
     length (filter is_continuity (cons pr)) = N \<and>
     length (cons pr) = 3 * N \<and>
     map kind_of (cons pr) = concat (replicate N [DefectBlock, ContinuityBlock, PathBlock]) \<and>
     cons_lb pr = concat (replicate N
        (replicate (n_g d) (Fin 0) @ replicate (size_st (m_x (model s))) (Fin 0) @ cat nlb)) \<and>
     cons_ub pr = concat (replicate N
        (replicate (n_g d) (Fin 0) @ replicate (size_st (m_x (model s))) (Fin 0) @ cat nub)) \<and>
     length (filter is_stage_cost (obj pr)) = N \<and>
     length (obj pr) = N + 1 \<and>
     opt_x pr = opt_x_struct s N (n_total_coll_points d) \<and>
     n_opt_x pr =
       (N + 1) * (1 + n_total_coll_points d) * size_st (m_x (model s)) +
       N * (1 + n_total_coll_points d) * size_st (m_z (model s)) +
       N * size_st (m_u (model s)) + size_st (p_est s)"
  using assms horizon_loop_counts [of s d _ _ _ "[0..<N]"]
    horizon_loop_bounds [of s d _ _ _ "[0..<N]"]
  by (auto simp: setup_mhe_optim_problem_def Let_def nlpsol_def py_dict_update_def
                 size_opt_x_struct concat_concat_replicate3
           split: sum.splits option.splits if_splits)

theorem assembly_counts_witness:
  "setup_mhe_optim_problem example_disc example_assembled =
     (Inr (), snd (setup_mhe_optim_problem example_disc example_assembled)) \<and>
   n_horizon example_assembled = Some 1 \<and>
   example_disc example_assembled = Inr \<lparr>n_g = 2, n_total_coll_points = 1\<rparr> \<and>
   (\<exists>pr. problem (snd (setup_mhe_optim_problem example_disc example_assembled)) = Some pr \<and>
      length (filter is_defect (cons pr)) = 1 \<and>
      length (filter is_continuity (cons pr)) = 1 \<and>
      map kind_of (cons pr) = [DefectBlock, ContinuityBlock, PathBlock] \<and>
      cons_lb pr = [Fin 0, Fin 0, Fin 0] \<and> cons_ub pr = [Fin 0, Fin 0, Fin 0] \<and>
      length (filter is_stage_cost (obj pr)) = 1 \<and>
      n_opt_x pr = 9)"
proof -
  have "fst (setup_mhe_optim_problem example_disc example_assembled) = Inr ()" by code_simp
  then have h1: "setup_mhe_optim_problem example_disc example_assembled =
     (Inr (), snd (setup_mhe_optim_problem example_disc example_assembled))"
    by (metis prod.collapse)
  have h2: "n_horizon example_assembled = Some 1" by code_simp
  have h3: "example_disc example_assembled = Inr \<lparr>n_g = 2, n_total_coll_points = 1\<rparr>"
    by (simp add: example_disc_def)
  have sz: "size_st (m_x (model example_assembled)) = 1"
    "size_st (m_z (model example_assembled)) = 1"
    "size_st (m_u (model example_assembled)) = 1" "size_st (p_est example_assembled) = 2"
    by code_simp+
  have nl: "map_option cat (nl_cons_lb example_assembled) = Some []"
    "map_option cat (nl_cons_ub example_assembled) = Some []"
    by code_simp+
  from assembly_counts [OF h1 h2 h3] obtain pr nlb nub where
    "problem (snd (setup_mhe_optim_problem example_disc example_assembled)) = Some pr"
    "nl_cons_lb example_assembled = Some nlb" "nl_cons_ub example_assembled = Some nub"
    "length (filter is_defect (cons pr)) = 1" "length (filter is_continuity (cons pr)) = 1"
    "map kind_of (cons pr) = concat (replicate 1 [DefectBlock, ContinuityBlock, PathBlock])"
    "cons_lb pr = concat (replicate 1
        (replicate 2 (Fin 0) @ replicate 1 (Fin 0) @ cat nlb))"
    "cons_ub pr = concat (replicate 1
        (replicate 2 (Fin 0) @ replicate 1 (Fin 0) @ cat nub))"
    "length (filter is_stage_cost (obj pr)) = 1" "n_opt_x pr = 9"
    by (auto simp: sz)
  with nl have prs: "problem (snd (setup_mhe_optim_problem example_disc example_assembled)) = Some pr \<and>
      length (filter is_defect (cons pr)) = 1 \<and>
      length (filter is_continuity (cons pr)) = 1 \<and>
      map kind_of (cons pr) = [DefectBlock, ContinuityBlock, PathBlock] \<and>
      cons_lb pr = [Fin 0, Fin 0, Fin 0] \<and> cons_ub pr = [Fin 0, Fin 0, Fin 0] \<and>
      length (filter is_stage_cost (obj pr)) = 1 \<and>
      n_opt_x pr = 9"
    by (simp add: numeral_2_eq_2)
  have ex: "\<exists>pr. problem (snd (setup_mhe_optim_problem example_disc example_assembled)) = Some pr \<and>
      length (filter is_defect (cons pr)) = 1 \<and>
      length (filter is_continuity (cons pr)) = 1 \<and>
      map kind_of (cons pr) = [DefectBlock, ContinuityBlock, PathBlock] \<and>
      cons_lb pr = [Fin 0, Fin 0, Fin 0] \<and> cons_ub pr = [Fin 0, Fin 0, Fin 0] \<and>
      length (filter is_stage_cost (obj pr)) = 1 \<and>
      n_opt_x pr = 9"
    using prs by (rule exI [of _ pr])
  show ?thesis by (rule conjI [OF h1 conjI [OF h2 conjI [OF h3 ex]]])
qed

lemma solver_options_are_the_callers:
  assumes "setup_mhe_optim_problem disc s = (Inr (), s')"
  shows "\<exists>pr. problem s' = Some pr \<and> opts (S pr) = nlpsol_opts s"
  using assms
  by (auto simp: setup_mhe_optim_problem_def Let_def nlpsol_def py_dict_update_def
           split: sum.splits option.splits if_splits)

text \<open>
  C8 holds of the intended behaviour and fails on the code.  The code builds the
  default options and calls \<open>.update(self.nlpsol_opts)\<close> on them, which returns
  \<open>None\<close>, and then hands \<open>self.nlpsol_opts\<close> itself to the solver: the solver receives
  the caller's options only (lemma \<open>solver_options_are_the_callers\<close>).  The instances:
  with no option supplied the solver receives no option, where the merged set is the
  two defaults; with one option supplied it receives that option alone.
\<close>

theorem solver_options_without_defaults:
  "nlpsol_opts example_mhe = [] \<and>
   fst (mhe_setup example_disc example_mhe) = Inr () \<and>
   map_option (\<lambda>pr. opts (S pr)) (problem example_assembled) = Some [] \<and>
   dict_update [(''expand'', OBool False), (''ipopt.linear_solver'', OStr ''mumps'')]
     (nlpsol_opts example_mhe)
     = [(''expand'', OBool False), (''ipopt.linear_solver'', OStr ''mumps'')] \<and>
   map_option (\<lambda>pr. opts (S pr))
     (problem (snd (mhe_setup example_disc
        (example_mhe\<lparr>nlpsol_opts := [(''ipopt.print_level'', OInt 0)]\<rparr>))))
     = Some [(''ipopt.print_level'', OInt 0)] \<and>
   dict_update [(''expand'', OBool False), (''ipopt.linear_solver'', OStr ''mumps'')]
     [(''ipopt.print_level'', OInt 0)]
     = [(''expand'', OBool False), (''ipopt.linear_solver'', OStr ''mumps''),
        (''ipopt.print_level'', OInt 0)]"
  by code_simp

section \<open>Properties of the receding-horizon step\<close>

lemma make_step_appends_measurement:
  "d_y (data (snd (make_step nlp s y0))) = d_y (data s) @ [y0]"
  by (auto simp: make_step_def Let_def data_update_y_def solve_def extract_and_record_def
           split: option.splits sum.splits prod.splits)

lemma make_step_without_buffers_raises:
  "opt_p_num s = None \<Longrightarrow> isl (fst (make_step nlp s y0))"
  by (auto simp: make_step_def Let_def split: option.splits sum.splits prod.splits)

text \<open>
  C6 holds of the intended behaviour and fails on the code.  \<open>make_step\<close> has no guard
  on the setup flag (\<open>set_initial_guess\<close> has one).  Before \<open>setup\<close> it appends the
  measurement to the history first (lemma \<open>make_step_appends_measurement\<close>) and then
  stops at the first attribute that only \<open>setup\<close> creates, with an \<open>AttributeError\<close>.
  The instance: the freshly constructed example estimator.
\<close>

theorem make_step_before_setup:
  "\<not> flag_setup (projr (MHE example_model [''b''])) \<and>
   fst (make_step example_nlp (projr (MHE example_model [''b''])) [Fin 3])
     = Inl (AttributeError ''tvp_fun'') \<and>
   d_y (data (projr (MHE example_model [''b'']))) = [] \<and>
   d_y (data (snd (make_step example_nlp (projr (MHE example_model [''b''])) [Fin 3])))
     = [[Fin 3]]"
  by code_simp

lemma py_index_last: "py_index N (- 1) = Inr k \<Longrightarrow> 0 < N \<and> k = N - 1"
  by (auto simp: py_index_def Let_def split: if_splits)

text \<open>
  C7, as stated, fails: the state written to the history is the estimate held before
  the call, not the one extracted from the solution, and the recorded parameter vector
  is recombined from the previous parameter estimate.  In the instance the solver
  returns the state 4 and the parameter estimate (8, 9); the call returns 4, and the
  history receives the state 0 and the parameter vector (7, 0, 0, 9).
\<close>

theorem history_records_previous_state:
  "fst (make_step example_nlp example_assembled [Fin 3]) = Inr [Fin 4] \<and>
   cat (x0 example_assembled) = [Fin 0] \<and>
   d_x (data (snd (make_step example_nlp example_assembled [Fin 3])))
     = [[Fin 0]] \<and>
   d_p (data (snd (make_step example_nlp example_assembled [Fin 3])))
     = [[Fin 7, Fin 0, Fin 0, Fin 9]] \<and>
   cat (p_est0 (snd (make_step example_nlp example_assembled [Fin 3])))
     = [Fin 8, Fin 9]"
  by code_simp

text \<open>
  C7, amended.  When \<open>make_step\<close> returns, the solver's solution and the auxiliary
  values are in the numeric buffers, and the history has received, besides the
  measurement, one row per quantity: the state estimate held before the call, the
  input, the algebraic value and the auxiliary value extracted from the solution at the
  last horizon step (last collocation point), the full parameter vector recombined from
  the parameter estimate held before the call and the fixed parameters of the callback,
  and the time before the call.  The returned value is the state extracted from the
  solution at the last horizon step and last collocation point, scaled back; it becomes
  the stored state estimate, the extracted parameter estimate becomes the stored one,
  and the clock advances by the step size.
\<close>

theorem make_step_record:
  assumes "make_step nlp s y0 = (Inr r, s')"
  shows "\<exists>pr N pf dt s_in sol aux p0.
     problem s = Some pr \<and> n_horizon s = Some N \<and> 0 < N \<and> p_fun s = Some pf \<and>
     t_step s = Some dt \<and>
     sol = \<lparr>ds_labels = labels (opt_x pr), cat = fst (nlp s_in)\<rparr> \<and>
     aux = \<lparr>ds_labels = labels (aux_struct pr), cat = snd (nlp s_in)\<rparr> \<and>
     opt_x_num s' = Some sol \<and> opt_aux_num s' = Some aux \<and>
     recombine s (cat (p_est0 s)) (cat (pf (t0 s))) = Inr p0 \<and>
     r = map2 fmul (ds_get sol [K ''_x'', I N, I (n_coll pr)]) (cat (x_scaling s)) \<and>
     d_y (data s') = d_y (data s) @ [y0] \<and>
     d_x (data s') = d_x (data s) @ [cat (x0 s)] \<and>
     d_u (data s') = d_u (data s) @
        [map2 fmul (ds_get sol [K ''_u'', I (N - 1)]) (cat (u_scaling s))] \<and>
     d_z (data s') = d_z (data s) @
        [map2 fmul (ds_get sol [K ''_z'', I (N - 1), I (n_coll pr)]) (cat (z_scaling s))] \<and>
     d_p (data s') = d_p (data s) @ [p0] \<and>
     d_time (data s') = d_time (data s) @ [t0 s] \<and>
     d_aux_expression (data s') = d_aux_expression (data s) @
        [ds_get aux [K ''_aux'', I (N - 1)]] \<and>
     cat (x0 s') = r \<and> t0 s' = fadd (t0 s) dt \<and>
     cat (p_est0 s') = map2 fmul (ds_get sol [K ''_p_est'']) (cat (p_est_scaling s))"
  using assms
  apply (simp add: make_step_def Let_def data_update_y_def solve_def extract_and_record_def
           recombine_def
           split: option.splits sum.splits prod.splits)
  apply (auto dest!: py_index_last)
  done

theorem make_step_record_witness:
  "make_step example_nlp example_assembled [Fin 3] =
     (Inr [Fin 4], snd (make_step example_nlp example_assembled [Fin 3])) \<and>
   d_x (data (snd (make_step example_nlp example_assembled [Fin 3]))) =
     d_x (data example_assembled) @ [cat (x0 example_assembled)] \<and>
   d_time (data (snd (make_step example_nlp example_assembled [Fin 3]))) =
     d_time (data example_assembled) @ [t0 example_assembled] \<and>
   cat (x0 (snd (make_step example_nlp example_assembled [Fin 3]))) = [Fin 4]"
proof -
  have "fst (make_step example_nlp example_assembled [Fin 3]) = Inr [Fin 4]" by code_simp
  then have h: "make_step example_nlp example_assembled [Fin 3] =
     (Inr [Fin 4], snd (make_step example_nlp example_assembled [Fin 3]))"
    by (metis prod.collapse)
  from make_step_record [OF h] h show ?thesis by auto
qed

end
